theory Spec2Isabelle
  imports Main
begin

section \<open>Host-language values\<close>

text \<open>
  The handlers of \<^verbatim>\<open>src/actions/index.ts\<close> are TypeScript functions over a relational
  store. Optional inputs and nullable columns are \<open>option\<close> values: \<open>None\<close> is
  \<^verbatim>\<open>undefined\<close> in an input and \<^verbatim>\<open>NULL\<close> in a row. Dates are numbers of
  milliseconds.
\<close>

type_synonym date = nat

text \<open>
  JavaScript truthiness of an optional string, as tested by \<^verbatim>\<open>if (input.templateId)\<close>
  and \<^verbatim>\<open>template.userId && ...\<close>: \<^verbatim>\<open>undefined\<close>, \<^verbatim>\<open>null\<close> and the
  empty string are falsy, every other string is truthy.
\<close>

fun truthy :: "string option \<Rightarrow> bool" where
  "truthy None = False"
| "truthy (Some s) = (s \<noteq> [])"

subsection \<open>Errors\<close>

text \<open>
  \<open>ActionError\<close> carries the code and the message of the source's
  \<^verbatim>\<open>new ActionError({code, message})\<close>. \<open>ActionInputError\<close> is what
  \<^verbatim>\<open>defineAction\<close> raises when the input fails its schema (code \<^verbatim>\<open>BAD_REQUEST\<close>;
  the list of issues is not modelled). \<open>DriverError\<close> is an error raised by the store
  itself.
\<close>

datatype code = UNAUTHORIZED | NOT_FOUND | FORBIDDEN

datatype error = ActionError code string | ActionInputError | DriverError string

subsection \<open>Request context\<close>

record User =
  user_id :: string

record Locals =
  user :: "User option"

record ActionAPIContext =
  locals :: "Locals option"

section \<open>Tables (\<^verbatim>\<open>db/tables.ts\<close>)\<close>

text \<open>
  One record per table; a column declared \<^verbatim>\<open>optional: true\<close> is nullable. The
  fields carry a table prefix (\<open>t_\<close>, \<open>i_\<close>, \<open>c_\<close>) because the three tables
  share column names. The \<open>id\<close> columns are primary keys, and \<open>MemeIdeas.templateId\<close>
  and \<open>MemeCaptions.memeIdeaId\<close> are declared with \<^verbatim>\<open>references\<close>: the store
  enforces both kinds of constraint on insertion (\<open>insert_row\<close> and \<open>check_references\<close>
  below).
\<close>

record MemeTemplate =
  t_id :: string
  t_userId :: "string option"
  t_name :: string
  t_description :: "string option"
  t_imageUrl :: "string option"
  t_layoutType :: "string option"
  t_isSystem :: bool
  t_createdAt :: date
  t_updatedAt :: date

record MemeIdea =
  i_id :: string
  i_userId :: string
  i_templateId :: "string option"
  i_context :: "string option"
  i_topic :: "string option"
  i_createdAt :: date

record MemeCaption =
  c_id :: string
  c_memeIdeaId :: string
  c_variantLabel :: "string option"
  c_topText :: "string option"
  c_bottomText :: "string option"
  c_extraText :: "string option"
  c_isFavorite :: bool
  c_isUsed :: bool
  c_createdAt :: date

text \<open>
  The store: the rows of each table in the store's order, and the statements executed
  so far, so that "no data access" is a property of the state.
\<close>

datatype table = TMemeTemplates | TMemeIdeas | TMemeCaptions

datatype statement = Select table | Insert table | Update table | Delete table

record db =
  MemeTemplates :: "MemeTemplate list"
  MemeIdeas :: "MemeIdea list"
  MemeCaptions :: "MemeCaption list"
  statements :: "statement list"

definition executed :: "statement \<Rightarrow> db \<Rightarrow> db" where
  "executed s d = d\<lparr>statements := statements d @ [s]\<rparr>"

section \<open>Query conditions\<close>

text \<open>
  The operators \<^verbatim>\<open>eq\<close>, \<^verbatim>\<open>and\<close>, \<^verbatim>\<open>or\<close> build SQL conditions, which are
  three-valued: \<open>None\<close> is SQL's unknown. \<^verbatim>\<open>eq(column, value)\<close> renders as
  \<^verbatim>\<open>column = ?\<close> with the value bound as a parameter, so a comparison in which either
  side is \<^verbatim>\<open>NULL\<close> is unknown, also when both are. \<^verbatim>\<open>WHERE\<close> keeps the rows whose
  condition is true.
\<close>

fun eq_sql :: "'a option \<Rightarrow> 'a option \<Rightarrow> bool option" where
  "eq_sql (Some x) (Some y) = Some (x = y)"
| "eq_sql _ _ = None"

fun and_sql :: "bool option \<Rightarrow> bool option \<Rightarrow> bool option" where
  "and_sql (Some False) _ = Some False"
| "and_sql _ (Some False) = Some False"
| "and_sql (Some True) (Some True) = Some True"
| "and_sql _ _ = None"

fun or_sql :: "bool option \<Rightarrow> bool option \<Rightarrow> bool option" where
  "or_sql (Some True) _ = Some True"
| "or_sql _ (Some True) = Some True"
| "or_sql (Some False) (Some False) = Some False"
| "or_sql _ _ = None"

text \<open>\<^verbatim>\<open>and(...filters)\<close> over a list of conditions on a row.\<close>

fun and_all :: "('r \<Rightarrow> bool option) list \<Rightarrow> 'r \<Rightarrow> bool option" where
  "and_all [] r = Some True"
| "and_all (f # fs) r = and_sql (f r) (and_all fs r)"

definition rows_where :: "('r \<Rightarrow> bool option) \<Rightarrow> 'r list \<Rightarrow> 'r list" where
  "rows_where cond rs = filter (\<lambda>r. cond r = Some True) rs"

text \<open>The rows a \<^verbatim>\<open>DELETE ... WHERE\<close> leaves in the table.\<close>

definition rows_unless :: "('r \<Rightarrow> bool option) \<Rightarrow> 'r list \<Rightarrow> 'r list" where
  "rows_unless cond rs = filter (\<lambda>r. cond r \<noteq> Some True) rs"

text \<open>
  \<^verbatim>\<open>INSERT\<close> into a table whose \<open>id\<close> column is the primary key: a second row with
  the same key is refused by the store.
\<close>

definition insert_row :: "('r \<Rightarrow> string) \<Rightarrow> 'r \<Rightarrow> 'r list \<Rightarrow> error + 'r list" where
  "insert_row key r rs =
     (if key r \<in> set (map key rs) then Inl (DriverError ''UNIQUE constraint failed'')
      else Inr (rs @ [r]))"

text \<open>
  A column declared with \<^verbatim>\<open>references\<close> is a foreign key: the store refuses a row
  whose reference is not \<^verbatim>\<open>NULL\<close> and is the key of no row of the referenced table.
\<close>

definition check_references :: "string option \<Rightarrow> string list \<Rightarrow> bool" where
  "check_references ref keys = (case ref of None \<Rightarrow> True | Some k \<Rightarrow> k \<in> set keys)"

section \<open>Access-control helpers\<close>

definition requireUser :: "ActionAPIContext \<Rightarrow> error + User" where
  "requireUser context =
     (case (case locals context of None \<Rightarrow> None | Some l \<Rightarrow> user l) of
        None \<Rightarrow> Inl (ActionError UNAUTHORIZED ''You must be signed in to perform this action.'')
      | Some u \<Rightarrow> Inr u)"

definition ensureTemplateAccessible ::
  "string \<Rightarrow> string \<Rightarrow> db \<Rightarrow> (error + MemeTemplate) \<times> db" where
  "ensureTemplateAccessible templateId userId d =
     (let rows = rows_where (\<lambda>t. eq_sql (Some (t_id t)) (Some templateId)) (MemeTemplates d);
          d1 = executed (Select TMemeTemplates) d
      in case rows of
           [] \<Rightarrow> (Inl (ActionError NOT_FOUND ''Template not found.''), d1)
         | template # _ \<Rightarrow>
             if truthy (t_userId template) \<and> t_userId template \<noteq> Some userId
             then (Inl (ActionError FORBIDDEN ''You do not have access to this template.''), d1)
             else (Inr template, d1))"

definition getOwnedIdea :: "string \<Rightarrow> string \<Rightarrow> db \<Rightarrow> (error + MemeIdea) \<times> db" where
  "getOwnedIdea ideaId userId d =
     (let rows = rows_where
                   (\<lambda>i. and_sql (eq_sql (Some (i_id i)) (Some ideaId))
                                 (eq_sql (Some (i_userId i)) (Some userId)))
                   (MemeIdeas d);
          d1 = executed (Select TMemeIdeas) d
      in case rows of
           [] \<Rightarrow> (Inl (ActionError NOT_FOUND ''Meme idea not found.''), d1)
         | idea # _ \<Rightarrow> (Inr idea, d1))"

section \<open>Actions\<close>

text \<open>
  \<^verbatim>\<open>defineAction({input, handler})\<close> parses the request's input with the schema and
  calls the handler on the parsed input; an input the schema refuses raises the input
  error and the handler does not run. The inputs of the model are typed, so a schema
  only checks what the types do not: \<^verbatim>\<open>min(1)\<close>, \<^verbatim>\<open>refine\<close> and defaults.
\<close>

definition defineAction ::
  "('raw \<Rightarrow> 'i option) \<Rightarrow> ('i \<Rightarrow> ActionAPIContext \<Rightarrow> db \<Rightarrow> (error + 'a) \<times> db) \<Rightarrow>
   'raw \<Rightarrow> ActionAPIContext \<Rightarrow> db \<Rightarrow> (error + 'a) \<times> db" where
  "defineAction schema handler raw context d =
     (case schema raw of
        None \<Rightarrow> (Inl ActionInputError, d)
      | Some input \<Rightarrow> handler input context d)"

text \<open>
  What a handler reads from outside the request and the store:
  \<^verbatim>\<open>crypto.randomUUID()\<close> and \<^verbatim>\<open>new Date()\<close>.
\<close>

record env =
  uuid :: string
  now :: date

text \<open>The payload \<^verbatim>\<open>{ items, total }\<close> of the list actions.\<close>

record 'r listing =
  items :: "'r list"
  total :: nat

subsection \<open>createTemplate\<close>

record createTemplate_input =
  ct_name :: string
  ct_description :: "string option"
  ct_imageUrl :: "string option"
  ct_layoutType :: "string option"

definition createTemplate_schema :: "createTemplate_input \<Rightarrow> createTemplate_input option" where
  "createTemplate_schema input = (if 1 \<le> length (ct_name input) then Some input else None)"

definition createTemplate_handler ::
  "env \<Rightarrow> createTemplate_input \<Rightarrow> ActionAPIContext \<Rightarrow> db \<Rightarrow> (error + MemeTemplate) \<times> db" where
  "createTemplate_handler e input context d =
     (case requireUser context of
        Inl err \<Rightarrow> (Inl err, d)
      | Inr u \<Rightarrow>
          let template = \<lparr>t_id = uuid e, t_userId = Some (user_id u), t_name = ct_name input,
                           t_description = ct_description input, t_imageUrl = ct_imageUrl input,
                           t_layoutType = ct_layoutType input, t_isSystem = False,
                           t_createdAt = now e, t_updatedAt = now e\<rparr>;
              d1 = executed (Insert TMemeTemplates) d
          in case insert_row t_id template (MemeTemplates d1) of
               Inl err \<Rightarrow> (Inl err, d1)
             | Inr rows \<Rightarrow> (Inr template, d1\<lparr>MemeTemplates := rows\<rparr>))"

definition createTemplate ::
  "env \<Rightarrow> createTemplate_input \<Rightarrow> ActionAPIContext \<Rightarrow> db \<Rightarrow> (error + MemeTemplate) \<times> db" where
  "createTemplate e = defineAction createTemplate_schema (createTemplate_handler e)"

subsection \<open>listTemplates\<close>

definition listTemplates_handler ::
  "unit \<Rightarrow> ActionAPIContext \<Rightarrow> db \<Rightarrow> (error + MemeTemplate listing) \<times> db" where
  "listTemplates_handler input context d =
     (case requireUser context of
        Inl err \<Rightarrow> (Inl err, d)
      | Inr u \<Rightarrow>
          let templates = rows_where
                (\<lambda>t. or_sql (eq_sql (t_userId t) (Some (user_id u))) (eq_sql (t_userId t) None))
                (MemeTemplates d);
              d1 = executed (Select TMemeTemplates) d
          in (Inr \<lparr>items = templates, total = length templates\<rparr>, d1))"

definition listTemplates ::
  "unit \<Rightarrow> ActionAPIContext \<Rightarrow> db \<Rightarrow> (error + MemeTemplate listing) \<times> db" where
  "listTemplates = defineAction Some listTemplates_handler"

subsection \<open>createMemeIdea\<close>

record createMemeIdea_input =
  ci_templateId :: "string option"
  ci_context :: "string option"
  ci_topic :: "string option"

text \<open>
  The insertion that ends the handler (lines 124 to 136). The store checks the primary key
  and then the reference to the template.
\<close>

definition createMemeIdea_insert ::
  "env \<Rightarrow> createMemeIdea_input \<Rightarrow> User \<Rightarrow> db \<Rightarrow> (error + MemeIdea) \<times> db" where
  "createMemeIdea_insert e input u d =
     (let idea = \<lparr>i_id = uuid e, i_userId = user_id u, i_templateId = ci_templateId input,
                   i_context = ci_context input, i_topic = ci_topic input,
                   i_createdAt = now e\<rparr>;
          d1 = executed (Insert TMemeIdeas) d
      in case insert_row i_id idea (MemeIdeas d1) of
           Inl err \<Rightarrow> (Inl err, d1)
         | Inr rows \<Rightarrow>
             if check_references (i_templateId idea) (map t_id (MemeTemplates d1))
             then (Inr idea, d1\<lparr>MemeIdeas := rows\<rparr>)
             else (Inl (DriverError ''FOREIGN KEY constraint failed''), d1))"

definition createMemeIdea_handler ::
  "env \<Rightarrow> createMemeIdea_input \<Rightarrow> ActionAPIContext \<Rightarrow> db \<Rightarrow> (error + MemeIdea) \<times> db" where
  "createMemeIdea_handler e input context d =
     (case requireUser context of
        Inl err \<Rightarrow> (Inl err, d)
      | Inr u \<Rightarrow>
          (case ci_templateId input of
             None \<Rightarrow> createMemeIdea_insert e input u d
           | Some templateId \<Rightarrow>
               if truthy (Some templateId)
               then (case ensureTemplateAccessible templateId (user_id u) d of
                       (Inl err, d1) \<Rightarrow> (Inl err, d1)
                     | (Inr _, d1) \<Rightarrow> createMemeIdea_insert e input u d1)
               else createMemeIdea_insert e input u d))"

definition createMemeIdea ::
  "env \<Rightarrow> createMemeIdea_input \<Rightarrow> ActionAPIContext \<Rightarrow> db \<Rightarrow> (error + MemeIdea) \<times> db" where
  "createMemeIdea e = defineAction Some (createMemeIdea_handler e)"

subsection \<open>listMemeIdeas\<close>

definition listMemeIdeas_handler ::
  "unit \<Rightarrow> ActionAPIContext \<Rightarrow> db \<Rightarrow> (error + MemeIdea listing) \<times> db" where
  "listMemeIdeas_handler input context d =
     (case requireUser context of
        Inl err \<Rightarrow> (Inl err, d)
      | Inr u \<Rightarrow>
          let ideas = rows_where (\<lambda>i. eq_sql (Some (i_userId i)) (Some (user_id u))) (MemeIdeas d);
              d1 = executed (Select TMemeIdeas) d
          in (Inr \<lparr>items = ideas, total = length ideas\<rparr>, d1))"

definition listMemeIdeas ::
  "unit \<Rightarrow> ActionAPIContext \<Rightarrow> db \<Rightarrow> (error + MemeIdea listing) \<times> db" where
  "listMemeIdeas = defineAction Some listMemeIdeas_handler"

subsection \<open>createMemeCaption\<close>

record createMemeCaption_input =
  cc_memeIdeaId :: string
  cc_variantLabel :: "string option"
  cc_topText :: "string option"
  cc_bottomText :: "string option"
  cc_extraText :: "string option"
  cc_isFavorite :: "bool option"
  cc_isUsed :: "bool option"

definition createMemeCaption_schema ::
  "createMemeCaption_input \<Rightarrow> createMemeCaption_input option" where
  "createMemeCaption_schema input =
     (if 1 \<le> length (cc_memeIdeaId input) then Some input else None)"

definition createMemeCaption_handler ::
  "env \<Rightarrow> createMemeCaption_input \<Rightarrow> ActionAPIContext \<Rightarrow> db \<Rightarrow> (error + MemeCaption) \<times> db" where
  "createMemeCaption_handler e input context d =
     (case requireUser context of
        Inl err \<Rightarrow> (Inl err, d)
      | Inr u \<Rightarrow>
          (case getOwnedIdea (cc_memeIdeaId input) (user_id u) d of
             (Inl err, d1) \<Rightarrow> (Inl err, d1)
           | (Inr _, d1) \<Rightarrow>
               let caption = \<lparr>c_id = uuid e, c_memeIdeaId = cc_memeIdeaId input,
                     c_variantLabel = cc_variantLabel input, c_topText = cc_topText input,
                     c_bottomText = cc_bottomText input, c_extraText = cc_extraText input,
                     c_isFavorite = (case cc_isFavorite input of None \<Rightarrow> False | Some b \<Rightarrow> b),
                     c_isUsed = (case cc_isUsed input of None \<Rightarrow> False | Some b \<Rightarrow> b),
                     c_createdAt = now e\<rparr>;
                   d2 = executed (Insert TMemeCaptions) d1
               in case insert_row c_id caption (MemeCaptions d2) of
                    Inl err \<Rightarrow> (Inl err, d2)
                  | Inr rows \<Rightarrow>
                      if check_references (Some (c_memeIdeaId caption)) (map i_id (MemeIdeas d2))
                      then (Inr caption, d2\<lparr>MemeCaptions := rows\<rparr>)
                      else (Inl (DriverError ''FOREIGN KEY constraint failed''), d2)))"

definition createMemeCaption ::
  "env \<Rightarrow> createMemeCaption_input \<Rightarrow> ActionAPIContext \<Rightarrow> db \<Rightarrow> (error + MemeCaption) \<times> db" where
  "createMemeCaption e = defineAction createMemeCaption_schema (createMemeCaption_handler e)"

subsection \<open>updateMemeCaption\<close>

record updateMemeCaption_input =
  up_id :: string
  up_memeIdeaId :: string
  up_variantLabel :: "string option"
  up_topText :: "string option"
  up_bottomText :: "string option"
  up_extraText :: "string option"
  up_isFavorite :: "bool option"
  up_isUsed :: "bool option"

text \<open>The predicate given to \<^verbatim>\<open>refine\<close>.\<close>

definition updateMemeCaption_refine :: "updateMemeCaption_input \<Rightarrow> bool" where
  "updateMemeCaption_refine input \<longleftrightarrow>
     up_variantLabel input \<noteq> None \<or> up_topText input \<noteq> None \<or> up_bottomText input \<noteq> None \<or>
     up_extraText input \<noteq> None \<or> up_isFavorite input \<noteq> None \<or> up_isUsed input \<noteq> None"

definition updateMemeCaption_schema ::
  "updateMemeCaption_input \<Rightarrow> updateMemeCaption_input option" where
  "updateMemeCaption_schema input =
     (if 1 \<le> length (up_id input) \<and> 1 \<le> length (up_memeIdeaId input) \<and>
         updateMemeCaption_refine input
      then Some input else None)"

text \<open>
  The object given to \<^verbatim>\<open>set\<close>, applied to a row: each spread contributes its column
  only when the input field is not \<^verbatim>\<open>undefined\<close>.
\<close>

definition updateMemeCaption_set :: "updateMemeCaption_input \<Rightarrow> MemeCaption \<Rightarrow> MemeCaption" where
  "updateMemeCaption_set input c =
     c\<lparr>c_variantLabel := (case up_variantLabel input of None \<Rightarrow> c_variantLabel c | Some v \<Rightarrow> Some v),
       c_topText := (case up_topText input of None \<Rightarrow> c_topText c | Some v \<Rightarrow> Some v),
       c_bottomText := (case up_bottomText input of None \<Rightarrow> c_bottomText c | Some v \<Rightarrow> Some v),
       c_extraText := (case up_extraText input of None \<Rightarrow> c_extraText c | Some v \<Rightarrow> Some v),
       c_isFavorite := (case up_isFavorite input of None \<Rightarrow> c_isFavorite c | Some b \<Rightarrow> b),
       c_isUsed := (case up_isUsed input of None \<Rightarrow> c_isUsed c | Some b \<Rightarrow> b)\<rparr>"

text \<open>
  The \<^verbatim>\<open>UPDATE ... WHERE id = ? RETURNING\<close> that ends the handler (lines 227 to 240).
  The query builder refuses an empty \<^verbatim>\<open>set\<close> before any statement is sent; the
  schema's \<^verbatim>\<open>refine\<close> keeps the action from reaching that branch. The payload's
  \<open>caption\<close> is the first returned row, \<^verbatim>\<open>undefined\<close> (\<open>None\<close>) when there is none.
\<close>

definition updateMemeCaption_update ::
  "updateMemeCaption_input \<Rightarrow> db \<Rightarrow> (error + MemeCaption option) \<times> db" where
  "updateMemeCaption_update input d =
     (if \<not> updateMemeCaption_refine input then (Inl (DriverError ''No values to set''), d)
      else
        let cond = (\<lambda>c. eq_sql (Some (c_id c)) (Some (up_id input)));
            returned = map (updateMemeCaption_set input) (rows_where cond (MemeCaptions d));
            d1 = (executed (Update TMemeCaptions) d)
                   \<lparr>MemeCaptions :=
                      map (\<lambda>c. if cond c = Some True then updateMemeCaption_set input c else c)
                        (MemeCaptions d)\<rparr>
        in (Inr (case returned of [] \<Rightarrow> None | caption # _ \<Rightarrow> Some caption), d1))"

definition updateMemeCaption_handler ::
  "updateMemeCaption_input \<Rightarrow> ActionAPIContext \<Rightarrow> db \<Rightarrow> (error + MemeCaption option) \<times> db" where
  "updateMemeCaption_handler input context d =
     (case requireUser context of
        Inl err \<Rightarrow> (Inl err, d)
      | Inr u \<Rightarrow>
          (case getOwnedIdea (up_memeIdeaId input) (user_id u) d of
             (Inl err, d1) \<Rightarrow> (Inl err, d1)
           | (Inr _, d1) \<Rightarrow>
               let existing = rows_where
                     (\<lambda>c. and_sql (eq_sql (Some (c_id c)) (Some (up_id input)))
                                   (eq_sql (Some (c_memeIdeaId c)) (Some (up_memeIdeaId input))))
                     (MemeCaptions d1);
                   d2 = executed (Select TMemeCaptions) d1
               in case existing of
                    [] \<Rightarrow> (Inl (ActionError NOT_FOUND ''Meme caption not found.''), d2)
                  | _ # _ \<Rightarrow> updateMemeCaption_update input d2))"

definition updateMemeCaption ::
  "updateMemeCaption_input \<Rightarrow> ActionAPIContext \<Rightarrow> db \<Rightarrow> (error + MemeCaption option) \<times> db" where
  "updateMemeCaption = defineAction updateMemeCaption_schema updateMemeCaption_handler"

subsection \<open>deleteMemeCaption\<close>

record deleteMemeCaption_input =
  de_id :: string
  de_memeIdeaId :: string

definition deleteMemeCaption_schema ::
  "deleteMemeCaption_input \<Rightarrow> deleteMemeCaption_input option" where
  "deleteMemeCaption_schema input =
     (if 1 \<le> length (de_id input) \<and> 1 \<le> length (de_memeIdeaId input) then Some input else None)"

definition deleteMemeCaption_handler ::
  "deleteMemeCaption_input \<Rightarrow> ActionAPIContext \<Rightarrow> db \<Rightarrow> (error + unit) \<times> db" where
  "deleteMemeCaption_handler input context d =
     (case requireUser context of
        Inl err \<Rightarrow> (Inl err, d)
      | Inr u \<Rightarrow>
          (case getOwnedIdea (de_memeIdeaId input) (user_id u) d of
             (Inl err, d1) \<Rightarrow> (Inl err, d1)
           | (Inr _, d1) \<Rightarrow>
               let cond = (\<lambda>c. and_sql (eq_sql (Some (c_id c)) (Some (de_id input)))
                                 (eq_sql (Some (c_memeIdeaId c)) (Some (de_memeIdeaId input))));
                   rowsAffected = length (rows_where cond (MemeCaptions d1));
                   d2 = (executed (Delete TMemeCaptions) d1)
                          \<lparr>MemeCaptions := rows_unless cond (MemeCaptions d1)\<rparr>
               in if rowsAffected = 0
                  then (Inl (ActionError NOT_FOUND ''Meme caption not found.''), d2)
                  else (Inr (), d2)))"

definition deleteMemeCaption ::
  "deleteMemeCaption_input \<Rightarrow> ActionAPIContext \<Rightarrow> db \<Rightarrow> (error + unit) \<times> db" where
  "deleteMemeCaption = defineAction deleteMemeCaption_schema deleteMemeCaption_handler"

subsection \<open>listMemeCaptions\<close>

text \<open>The request's input, and the input after the schema's defaults.\<close>

record listMemeCaptions_raw =
  lr_memeIdeaId :: string
  lr_favoritesOnly :: "bool option"
  lr_usedOnly :: "bool option"

record listMemeCaptions_input =
  li_memeIdeaId :: string
  li_favoritesOnly :: bool
  li_usedOnly :: bool

definition listMemeCaptions_schema :: "listMemeCaptions_raw \<Rightarrow> listMemeCaptions_input option" where
  "listMemeCaptions_schema raw =
     (if 1 \<le> length (lr_memeIdeaId raw)
      then Some \<lparr>li_memeIdeaId = lr_memeIdeaId raw,
                 li_favoritesOnly = (case lr_favoritesOnly raw of None \<Rightarrow> False | Some b \<Rightarrow> b),
                 li_usedOnly = (case lr_usedOnly raw of None \<Rightarrow> False | Some b \<Rightarrow> b)\<rparr>
      else None)"

definition listMemeCaptions_handler ::
  "listMemeCaptions_input \<Rightarrow> ActionAPIContext \<Rightarrow> db \<Rightarrow> (error + MemeCaption listing) \<times> db" where
  "listMemeCaptions_handler input context d =
     (case requireUser context of
        Inl err \<Rightarrow> (Inl err, d)
      | Inr u \<Rightarrow>
          (case getOwnedIdea (li_memeIdeaId input) (user_id u) d of
             (Inl err, d1) \<Rightarrow> (Inl err, d1)
           | (Inr _, d1) \<Rightarrow>
               let filters =
                     [\<lambda>c. eq_sql (Some (c_memeIdeaId c)) (Some (li_memeIdeaId input))]
                     @ (if li_favoritesOnly input
                        then [\<lambda>c. eq_sql (Some (c_isFavorite c)) (Some True)] else [])
                     @ (if li_usedOnly input
                        then [\<lambda>c. eq_sql (Some (c_isUsed c)) (Some True)] else []);
                   captions = rows_where (and_all filters) (MemeCaptions d1);
                   d2 = executed (Select TMemeCaptions) d1
               in (Inr \<lparr>items = captions, total = length captions\<rparr>, d2)))"

definition listMemeCaptions ::
  "listMemeCaptions_raw \<Rightarrow> ActionAPIContext \<Rightarrow> db \<Rightarrow> (error + MemeCaption listing) \<times> db" where
  "listMemeCaptions = defineAction listMemeCaptions_schema listMemeCaptions_handler"

section \<open>Example requests and stores\<close>

definition signed_in :: "string \<Rightarrow> ActionAPIContext" where
  "signed_in uid = \<lparr>locals = Some \<lparr>user = Some \<lparr>user_id = uid\<rparr>\<rparr>\<rparr>"

definition anonymous :: ActionAPIContext where
  "anonymous = \<lparr>locals = Some \<lparr>user = None\<rparr>\<rparr>"

definition env1 :: env where
  "env1 = \<lparr>uuid = ''u1'', now = 1\<rparr>"

definition empty_db :: db where
  "empty_db = \<lparr>MemeTemplates = [], MemeIdeas = [], MemeCaptions = [], statements = []\<rparr>"

definition drake :: "string option \<Rightarrow> MemeTemplate" where
  "drake owner = \<lparr>t_id = ''t1'', t_userId = owner, t_name = ''Drake'', t_description = None,
     t_imageUrl = None, t_layoutType = None, t_isSystem = False, t_createdAt = 0,
     t_updatedAt = 0\<rparr>"

definition idea1 :: MemeIdea where
  "idea1 = \<lparr>i_id = ''i1'', i_userId = ''alice'', i_templateId = None, i_context = None,
     i_topic = None, i_createdAt = 0\<rparr>"

definition idea2 :: MemeIdea where
  "idea2 = \<lparr>i_id = ''i2'', i_userId = ''alice'', i_templateId = None, i_context = None,
     i_topic = None, i_createdAt = 0\<rparr>"

definition caption :: "string \<Rightarrow> string \<Rightarrow> bool \<Rightarrow> bool \<Rightarrow> MemeCaption" where
  "caption cid iid fav used = \<lparr>c_id = cid, c_memeIdeaId = iid, c_variantLabel = None,
     c_topText = Some ''x'', c_bottomText = None, c_extraText = None, c_isFavorite = fav,
     c_isUsed = used, c_createdAt = 0\<rparr>"

text \<open>
  A store with one template owned by \<open>owner\<close>, two ideas of alice and four captions:
  three of the first idea and one of the second.
\<close>

definition sample_db :: "string option \<Rightarrow> db" where
  "sample_db owner = \<lparr>MemeTemplates = [drake owner], MemeIdeas = [idea1, idea2],
     MemeCaptions = [caption ''c1'' ''i1'' False False, caption ''c2'' ''i1'' True False,
                     caption ''c3'' ''i1'' True True, caption ''c4'' ''i2'' False True],
     statements = []\<rparr>"

section \<open>Properties of the helpers\<close>

lemma and_sql_eq_True [simp]:
  "and_sql (Some a) (Some b) = Some True \<longleftrightarrow> a \<and> b"
  by (cases a; cases b) simp_all

lemma rows_where_Nil_iff:
  "rows_where cond rs = [] \<longleftrightarrow> (\<forall>r \<in> set rs. cond r \<noteq> Some True)"
  by (simp add: rows_where_def filter_empty_conv)

lemma rows_where_ConsD:
  assumes "rows_where cond rs = r # rest"
  shows "r \<in> set rs \<and> cond r = Some True"
proof -
  have "r \<in> set (rows_where cond rs)"
    using assms by simp
  then show ?thesis
    by (simp add: rows_where_def)
qed

text \<open>
  C3. \<open>getOwnedIdea\<close> signals \<open>NOT_FOUND\<close> with one and the same message when no
  idea has the identifier and when the ideas with that identifier belong to other
  users; it returns an idea exactly when some idea has the identifier and the caller as
  owner, and the idea returned is such a row of the table.
\<close>

theorem getOwnedIdea_not_found_or_owned:
  "((\<forall>i \<in> set (MemeIdeas d). i_id i \<noteq> ideaId) \<longrightarrow>
      fst (getOwnedIdea ideaId userId d) = Inl (ActionError NOT_FOUND ''Meme idea not found.''))
   \<and> ((\<exists>i \<in> set (MemeIdeas d). i_id i = ideaId) \<and>
       (\<forall>i \<in> set (MemeIdeas d). i_id i = ideaId \<longrightarrow> i_userId i \<noteq> userId) \<longrightarrow>
      fst (getOwnedIdea ideaId userId d) = Inl (ActionError NOT_FOUND ''Meme idea not found.''))
   \<and> ((\<exists>idea. fst (getOwnedIdea ideaId userId d) = Inr idea) \<longleftrightarrow>
      (\<exists>i \<in> set (MemeIdeas d). i_id i = ideaId \<and> i_userId i = userId))
   \<and> (\<forall>idea. fst (getOwnedIdea ideaId userId d) = Inr idea \<longrightarrow>
      idea \<in> set (MemeIdeas d) \<and> i_id idea = ideaId \<and> i_userId idea = userId)"
proof -
  let ?cond = "\<lambda>i. and_sql (eq_sql (Some (i_id i)) (Some ideaId))
                            (eq_sql (Some (i_userId i)) (Some userId))"
  let ?rows = "rows_where ?cond (MemeIdeas d)"
  have res: "fst (getOwnedIdea ideaId userId d) =
      (case ?rows of [] \<Rightarrow> Inl (ActionError NOT_FOUND ''Meme idea not found.'')
       | idea # _ \<Rightarrow> Inr idea)"
    by (simp add: getOwnedIdea_def Let_def split: list.split)
  have empty: "?rows = [] \<longleftrightarrow>
      (\<forall>i \<in> set (MemeIdeas d). \<not> (i_id i = ideaId \<and> i_userId i = userId))"
    by (simp add: rows_where_Nil_iff)
  have a: "(\<forall>i \<in> set (MemeIdeas d). i_id i \<noteq> ideaId) \<longrightarrow>
      fst (getOwnedIdea ideaId userId d) = Inl (ActionError NOT_FOUND ''Meme idea not found.'')"
  proof
    assume "\<forall>i \<in> set (MemeIdeas d). i_id i \<noteq> ideaId"
    then have "?rows = []" unfolding empty by blast
    then show "fst (getOwnedIdea ideaId userId d) =
        Inl (ActionError NOT_FOUND ''Meme idea not found.'')"
      by (simp add: res)
  qed
  have b: "(\<exists>i \<in> set (MemeIdeas d). i_id i = ideaId) \<and>
       (\<forall>i \<in> set (MemeIdeas d). i_id i = ideaId \<longrightarrow> i_userId i \<noteq> userId) \<longrightarrow>
      fst (getOwnedIdea ideaId userId d) = Inl (ActionError NOT_FOUND ''Meme idea not found.'')"
  proof
    assume "(\<exists>i \<in> set (MemeIdeas d). i_id i = ideaId) \<and>
       (\<forall>i \<in> set (MemeIdeas d). i_id i = ideaId \<longrightarrow> i_userId i \<noteq> userId)"
    then have "?rows = []" unfolding empty by blast
    then show "fst (getOwnedIdea ideaId userId d) =
        Inl (ActionError NOT_FOUND ''Meme idea not found.'')"
      by (simp add: res)
  qed
  have d: "\<forall>idea. fst (getOwnedIdea ideaId userId d) = Inr idea \<longrightarrow>
      idea \<in> set (MemeIdeas d) \<and> i_id idea = ideaId \<and> i_userId idea = userId"
  proof (intro allI impI)
    fix idea
    assume ok: "fst (getOwnedIdea ideaId userId d) = Inr idea"
    then obtain rest where "?rows = idea # rest"
      by (cases ?rows) (simp_all add: res)
    from rows_where_ConsD [OF this]
    show "idea \<in> set (MemeIdeas d) \<and> i_id idea = ideaId \<and> i_userId idea = userId"
      by simp
  qed
  have c: "(\<exists>idea. fst (getOwnedIdea ideaId userId d) = Inr idea) \<longleftrightarrow>
      (\<exists>i \<in> set (MemeIdeas d). i_id i = ideaId \<and> i_userId i = userId)"
  proof
    assume "\<exists>idea. fst (getOwnedIdea ideaId userId d) = Inr idea"
    with d show "\<exists>i \<in> set (MemeIdeas d). i_id i = ideaId \<and> i_userId i = userId"
      by blast
  next
    assume "\<exists>i \<in> set (MemeIdeas d). i_id i = ideaId \<and> i_userId i = userId"
    then have "?rows \<noteq> []" unfolding empty by blast
    then show "\<exists>idea. fst (getOwnedIdea ideaId userId d) = Inr idea"
      by (cases ?rows) (simp_all add: res)
  qed
  from a b c d show ?thesis by blast
qed

text \<open>The three cases of C3 on the sample store.\<close>

theorem getOwnedIdea_sample:
  "fst (getOwnedIdea ''i0'' ''alice'' (sample_db None)) =
     Inl (ActionError NOT_FOUND ''Meme idea not found.'')
   \<and> fst (getOwnedIdea ''i1'' ''bob'' (sample_db None)) =
     Inl (ActionError NOT_FOUND ''Meme idea not found.'')
   \<and> fst (getOwnedIdea ''i1'' ''alice'' (sample_db None)) = Inr idea1"
proof -
  have ids: "i_id idea1 = ''i1''" "i_id idea2 = ''i2''" "i_userId idea1 = ''alice''"
    "i_userId idea2 = ''alice''" "MemeIdeas (sample_db None) = [idea1, idea2]"
    by (simp_all add: idea1_def idea2_def sample_db_def)
  have a: "fst (getOwnedIdea ''i0'' ''alice'' (sample_db None)) =
     Inl (ActionError NOT_FOUND ''Meme idea not found.'')"
    using getOwnedIdea_not_found_or_owned [of "sample_db None" "''i0''" "''alice''"]
    by (simp add: ids)
  have b: "fst (getOwnedIdea ''i1'' ''bob'' (sample_db None)) =
     Inl (ActionError NOT_FOUND ''Meme idea not found.'')"
    using getOwnedIdea_not_found_or_owned [of "sample_db None" "''i1''" "''bob''"]
    by (simp add: ids)
  have c: "fst (getOwnedIdea ''i1'' ''alice'' (sample_db None)) = Inr idea1"
    using getOwnedIdea_not_found_or_owned [of "sample_db None" "''i1''" "''alice''"]
    by (auto simp add: ids)
  from a b c show ?thesis by simp
qed

lemma rows_where_first:
  assumes "find (\<lambda>r. key r = k) rs = Some r"
  shows "\<exists>rest. rows_where (\<lambda>r. eq_sql (Some (key r)) (Some k)) rs = r # rest"
  using assms by (induction rs) (auto simp add: rows_where_def split: if_splits)

text \<open>
  C4 (as amended). \<open>ensureTemplateAccessible\<close> signals \<open>NOT_FOUND\<close> when no template
  has the identifier, whoever owns what. Otherwise it looks at the first template with the
  identifier (the only one, the identifier being the primary key): it returns the template
  when its \<open>userId\<close> is \<^verbatim>\<open>NULL\<close>, the empty string or the caller's, and signals
  \<open>FORBIDDEN\<close> when it is a non-empty string other than the caller's.
\<close>

theorem ensureTemplateAccessible_cases:
  "((\<forall>t \<in> set (MemeTemplates d). t_id t \<noteq> templateId) \<longrightarrow>
      fst (ensureTemplateAccessible templateId userId d) =
        Inl (ActionError NOT_FOUND ''Template not found.''))
   \<and> (\<forall>t. find (\<lambda>t. t_id t = templateId) (MemeTemplates d) = Some t \<longrightarrow>
        fst (ensureTemplateAccessible templateId userId d) =
          (if t_userId t = None \<or> t_userId t = Some [] \<or> t_userId t = Some userId
           then Inr t
           else Inl (ActionError FORBIDDEN ''You do not have access to this template.'')))"
proof (intro conjI allI impI)
  assume "\<forall>t \<in> set (MemeTemplates d). t_id t \<noteq> templateId"
  then have "rows_where (\<lambda>t. eq_sql (Some (t_id t)) (Some templateId)) (MemeTemplates d) = []"
    by (simp add: rows_where_Nil_iff)
  then show "fst (ensureTemplateAccessible templateId userId d) =
        Inl (ActionError NOT_FOUND ''Template not found.'')"
    by (simp add: ensureTemplateAccessible_def)
next
  fix t
  assume f: "find (\<lambda>t. t_id t = templateId) (MemeTemplates d) = Some t"
  obtain rest where
    "rows_where (\<lambda>t. eq_sql (Some (t_id t)) (Some templateId)) (MemeTemplates d) = t # rest"
    using rows_where_first [OF f] by blast
  then show "fst (ensureTemplateAccessible templateId userId d) =
          (if t_userId t = None \<or> t_userId t = Some [] \<or> t_userId t = Some userId
           then Inr t
           else Inl (ActionError FORBIDDEN ''You do not have access to this template.''))"
    by (cases "t_userId t") (auto simp add: ensureTemplateAccessible_def Let_def)
qed

text \<open>
  C4 as stated fails on a template whose \<open>userId\<close> is the empty string: the truthiness
  test \<^verbatim>\<open>template.userId && ...\<close> takes it for a template without owner, and a
  caller with another identifier gets the template, not \<open>FORBIDDEN\<close>.
\<close>

theorem ensureTemplateAccessible_empty_owner:
  "fst (ensureTemplateAccessible ''t1'' ''bob'' (sample_db (Some ''''))) = Inr (drake (Some ''''))"
  by (simp add: ensureTemplateAccessible_def sample_db_def drake_def rows_where_def)

text \<open>The cases of C4 on the sample store.\<close>

theorem ensureTemplateAccessible_sample:
  "fst (ensureTemplateAccessible ''t0'' ''bob'' (sample_db (Some ''alice''))) =
     Inl (ActionError NOT_FOUND ''Template not found.'')
   \<and> fst (ensureTemplateAccessible ''t1'' ''bob'' (sample_db (Some ''alice''))) =
     Inl (ActionError FORBIDDEN ''You do not have access to this template.'')
   \<and> fst (ensureTemplateAccessible ''t1'' ''alice'' (sample_db (Some ''alice''))) =
     Inr (drake (Some ''alice''))
   \<and> fst (ensureTemplateAccessible ''t1'' ''bob'' (sample_db None)) = Inr (drake None)"
proof -
  have tabs: "MemeTemplates (sample_db owner) = [drake owner]" "t_id (drake owner) = ''t1''"
    "t_userId (drake owner) = owner" for owner
    by (simp_all add: sample_db_def drake_def)
  have a: "fst (ensureTemplateAccessible ''t0'' ''bob'' (sample_db (Some ''alice''))) =
     Inl (ActionError NOT_FOUND ''Template not found.'')"
    using ensureTemplateAccessible_cases [of "sample_db (Some ''alice'')" "''t0''" "''bob''"]
    by (simp add: tabs)
  have b: "fst (ensureTemplateAccessible ''t1'' ''bob'' (sample_db (Some ''alice''))) =
     Inl (ActionError FORBIDDEN ''You do not have access to this template.'')"
    using ensureTemplateAccessible_cases [of "sample_db (Some ''alice'')" "''t1''" "''bob''"]
    by (simp add: tabs)
  have c: "fst (ensureTemplateAccessible ''t1'' ''alice'' (sample_db (Some ''alice''))) =
     Inr (drake (Some ''alice''))"
    using ensureTemplateAccessible_cases [of "sample_db (Some ''alice'')" "''t1''" "''alice''"]
    by (simp add: tabs)
  have d: "fst (ensureTemplateAccessible ''t1'' ''bob'' (sample_db None)) = Inr (drake None)"
    using ensureTemplateAccessible_cases [of "sample_db None" "''t1''" "''bob''"]
    by (simp add: tabs)
  from a b c d show ?thesis by simp
qed

section \<open>State and identity\<close>

lemma tables_executed [simp]:
  "MemeTemplates (executed s d) = MemeTemplates d"
  "MemeIdeas (executed s d) = MemeIdeas d"
  "MemeCaptions (executed s d) = MemeCaptions d"
  "statements (executed s d) = statements d @ [s]"
  by (simp_all add: executed_def)

lemma snd_getOwnedIdea [simp]:
  "snd (getOwnedIdea ideaId userId d) = executed (Select TMemeIdeas) d"
  by (simp add: getOwnedIdea_def Let_def split: list.split)

lemma snd_ensureTemplateAccessible [simp]:
  "snd (ensureTemplateAccessible templateId userId d) = executed (Select TMemeTemplates) d"
  by (simp add: ensureTemplateAccessible_def Let_def split: list.split)

lemma requireUser_signed_in [simp]: "requireUser (signed_in uid) = Inr \<lparr>user_id = uid\<rparr>"
  by (simp add: requireUser_def signed_in_def)

lemma requireUser_no_user:
  assumes "\<forall>l. locals context = Some l \<longrightarrow> user l = None"
  shows "requireUser context =
    Inl (ActionError UNAUTHORIZED ''You must be signed in to perform this action.'')"
  using assms by (cases "locals context") (simp_all add: requireUser_def)

lemma anonymous_no_user: "\<forall>l. locals anonymous = Some l \<longrightarrow> user l = None"
  by (simp add: anonymous_def)

section \<open>Listing templates\<close>

lemma own_or_null_iff:
  "or_sql (eq_sql x (Some a)) None = Some True \<longleftrightarrow> x = Some a"
proof (cases x)
  case None
  then show ?thesis by simp
next
  case (Some b)
  then show ?thesis by (cases "b = a") simp_all
qed

text \<open>
  The list of a signed-in caller is the templates whose \<open>userId\<close> is the caller's: the
  second disjunct, \<^verbatim>\<open>eq(MemeTemplates.userId, null)\<close>, compares with \<^verbatim>\<open>NULL\<close> and
  is never true. So a template with an owner is listed for that owner only, and a template
  without owner for nobody.
\<close>

lemma listTemplates_items:
  assumes "requireUser context = Inr u"
  shows "fst (listTemplates () context d) =
    Inr \<lparr>items = filter (\<lambda>t. t_userId t = Some (user_id u)) (MemeTemplates d),
         total = length (filter (\<lambda>t. t_userId t = Some (user_id u)) (MemeTemplates d))\<rparr>"
  using assms
  by (simp add: listTemplates_def defineAction_def listTemplates_handler_def Let_def
      rows_where_def own_or_null_iff)

text \<open>
  C1. Every signed-in caller's \<open>listTemplates\<close> is to include each template without
  owner. The action does not: on the sample store, whose one template has no owner
  (\<open>userId\<close> is \<^verbatim>\<open>NULL\<close>), the list of alice is empty, while
  \<open>ensureTemplateAccessible\<close> gives her that template.
\<close>

theorem listTemplates_omits_ownerless:
  "fst (listTemplates () (signed_in ''alice'') (sample_db None)) = Inr \<lparr>items = [], total = 0\<rparr>"
  by (simp add: listTemplates_def defineAction_def listTemplates_handler_def Let_def
      rows_where_def sample_db_def drake_def)

section \<open>Updating a caption\<close>

text \<open>
  C6. An \<open>updateMemeCaption\<close> request in which none of the six updatable fields is
  present raises the input error, whatever the identifiers, the context and the store,
  and leaves the store as it was: no row changes and no statement is executed.
\<close>

theorem updateMemeCaption_no_fields:
  assumes "up_variantLabel input = None" and "up_topText input = None"
    and "up_bottomText input = None" and "up_extraText input = None"
    and "up_isFavorite input = None" and "up_isUsed input = None"
  shows "updateMemeCaption input context d = (Inl ActionInputError, d)"
  using assms
  by (simp add: updateMemeCaption_def defineAction_def updateMemeCaption_schema_def
      updateMemeCaption_refine_def)

text \<open>An empty update of alice on the sample store.\<close>

theorem updateMemeCaption_no_fields_sample:
  "updateMemeCaption
     \<lparr>up_id = ''c1'', up_memeIdeaId = ''i1'', up_variantLabel = None, up_topText = None,
      up_bottomText = None, up_extraText = None, up_isFavorite = None, up_isUsed = None\<rparr>
     (signed_in ''alice'') (sample_db None) = (Inl ActionInputError, sample_db None)"
  by (rule updateMemeCaption_no_fields) simp_all

section \<open>Requests without identity\<close>

text \<open>
  C9 (as amended). The schema of an action is checked before its handler runs, and the
  handler's first step is \<open>requireUser\<close>. So a request without identity raises the input
  error when its input fails the schema and \<open>UNAUTHORIZED\<close> otherwise, and in both
  cases the store is returned as it was: no row changes and no statement is executed.
\<close>

theorem no_identity_no_access:
  assumes "\<forall>l. locals context = Some l \<longrightarrow> user l = None"
  shows "createTemplate e ct context d =
      (if ct_name ct = [] then Inl ActionInputError
       else Inl (ActionError UNAUTHORIZED ''You must be signed in to perform this action.''), d)
    \<and> listTemplates () context d =
      (Inl (ActionError UNAUTHORIZED ''You must be signed in to perform this action.''), d)
    \<and> createMemeIdea e ci context d =
      (Inl (ActionError UNAUTHORIZED ''You must be signed in to perform this action.''), d)
    \<and> listMemeIdeas () context d =
      (Inl (ActionError UNAUTHORIZED ''You must be signed in to perform this action.''), d)
    \<and> createMemeCaption e cc context d =
      (if cc_memeIdeaId cc = [] then Inl ActionInputError
       else Inl (ActionError UNAUTHORIZED ''You must be signed in to perform this action.''), d)
    \<and> updateMemeCaption up context d =
      (if up_id up = [] \<or> up_memeIdeaId up = [] \<or> \<not> updateMemeCaption_refine up
       then Inl ActionInputError
       else Inl (ActionError UNAUTHORIZED ''You must be signed in to perform this action.''), d)
    \<and> deleteMemeCaption de context d =
      (if de_id de = [] \<or> de_memeIdeaId de = [] then Inl ActionInputError
       else Inl (ActionError UNAUTHORIZED ''You must be signed in to perform this action.''), d)
    \<and> listMemeCaptions lr context d =
      (if lr_memeIdeaId lr = [] then Inl ActionInputError
       else Inl (ActionError UNAUTHORIZED ''You must be signed in to perform this action.''), d)"
proof -
  note u = requireUser_no_user [OF assms]
  have a: "createTemplate e ct context d =
      (if ct_name ct = [] then Inl ActionInputError
       else Inl (ActionError UNAUTHORIZED ''You must be signed in to perform this action.''), d)"
    by (simp add: createTemplate_def defineAction_def createTemplate_schema_def
        createTemplate_handler_def u Suc_le_eq)
  have b: "listTemplates () context d =
      (Inl (ActionError UNAUTHORIZED ''You must be signed in to perform this action.''), d)"
    by (simp add: listTemplates_def defineAction_def listTemplates_handler_def u)
  have c: "createMemeIdea e ci context d =
      (Inl (ActionError UNAUTHORIZED ''You must be signed in to perform this action.''), d)"
    by (simp add: createMemeIdea_def defineAction_def createMemeIdea_handler_def u)
  have d: "listMemeIdeas () context d =
      (Inl (ActionError UNAUTHORIZED ''You must be signed in to perform this action.''), d)"
    by (simp add: listMemeIdeas_def defineAction_def listMemeIdeas_handler_def u)
  have e: "createMemeCaption e cc context d =
      (if cc_memeIdeaId cc = [] then Inl ActionInputError
       else Inl (ActionError UNAUTHORIZED ''You must be signed in to perform this action.''), d)"
    by (simp add: createMemeCaption_def defineAction_def createMemeCaption_schema_def
        createMemeCaption_handler_def u Suc_le_eq)
  have f: "updateMemeCaption up context d =
      (if up_id up = [] \<or> up_memeIdeaId up = [] \<or> \<not> updateMemeCaption_refine up
       then Inl ActionInputError
       else Inl (ActionError UNAUTHORIZED ''You must be signed in to perform this action.''), d)"
    by (simp add: updateMemeCaption_def defineAction_def updateMemeCaption_schema_def
        updateMemeCaption_handler_def u Suc_le_eq)
  have g: "deleteMemeCaption de context d =
      (if de_id de = [] \<or> de_memeIdeaId de = [] then Inl ActionInputError
       else Inl (ActionError UNAUTHORIZED ''You must be signed in to perform this action.''), d)"
    by (simp add: deleteMemeCaption_def defineAction_def deleteMemeCaption_schema_def
        deleteMemeCaption_handler_def u Suc_le_eq)
  have h: "listMemeCaptions lr context d =
      (if lr_memeIdeaId lr = [] then Inl ActionInputError
       else Inl (ActionError UNAUTHORIZED ''You must be signed in to perform this action.''), d)"
    by (simp add: listMemeCaptions_def defineAction_def listMemeCaptions_schema_def
        listMemeCaptions_handler_def u Suc_le_eq)
  from a b c d e f g h show ?thesis
    by (intro conjI)
qed

text \<open>
  C9 as stated fails on a request whose input the schema refuses: an update with no field
  to change and no identity raises the input error, not \<open>UNAUTHORIZED\<close>.
\<close>

theorem updateMemeCaption_anonymous_no_fields:
  "updateMemeCaption
     \<lparr>up_id = ''c1'', up_memeIdeaId = ''i1'', up_variantLabel = None, up_topText = None,
      up_bottomText = None, up_extraText = None, up_isFavorite = None, up_isUsed = None\<rparr>
     anonymous (sample_db None) = (Inl ActionInputError, sample_db None)"
  by (simp add: updateMemeCaption_def defineAction_def updateMemeCaption_schema_def
      updateMemeCaption_refine_def)

text \<open>Anonymous requests on the sample store, one per table.\<close>

theorem no_identity_sample:
  "listTemplates () anonymous (sample_db None) =
     (Inl (ActionError UNAUTHORIZED ''You must be signed in to perform this action.''),
      sample_db None)
   \<and> createMemeIdea env1 \<lparr>ci_templateId = Some ''t1'', ci_context = None, ci_topic = None\<rparr>
       anonymous (sample_db None) =
     (Inl (ActionError UNAUTHORIZED ''You must be signed in to perform this action.''),
      sample_db None)
   \<and> deleteMemeCaption \<lparr>de_id = ''c1'', de_memeIdeaId = ''i1''\<rparr> anonymous (sample_db None) =
     (Inl (ActionError UNAUTHORIZED ''You must be signed in to perform this action.''),
      sample_db None)"
  using no_identity_no_access [OF anonymous_no_user, where e = env1 and d = "sample_db None"
      and ci = "\<lparr>ci_templateId = Some ''t1'', ci_context = None, ci_topic = None\<rparr>"
      and de = "\<lparr>de_id = ''c1'', de_memeIdeaId = ''i1''\<rparr>"]
  by simp

section \<open>Creating an idea\<close>

lemma ensureTemplateAccessible_find:
  "ensureTemplateAccessible templateId userId d =
     (case find (\<lambda>t. t_id t = templateId) (MemeTemplates d) of
        None \<Rightarrow> (Inl (ActionError NOT_FOUND ''Template not found.''),
                 executed (Select TMemeTemplates) d)
      | Some t \<Rightarrow>
          if truthy (t_userId t) \<and> t_userId t \<noteq> Some userId
          then (Inl (ActionError FORBIDDEN ''You do not have access to this template.''),
                executed (Select TMemeTemplates) d)
          else (Inr t, executed (Select TMemeTemplates) d))"
proof (cases "find (\<lambda>t. t_id t = templateId) (MemeTemplates d)")
  case None
  then have "rows_where (\<lambda>t. eq_sql (Some (t_id t)) (Some templateId)) (MemeTemplates d) = []"
    by (simp add: rows_where_Nil_iff find_None_iff)
  with None show ?thesis
    by (simp add: ensureTemplateAccessible_def)
next
  case (Some t)
  from rows_where_first [OF Some] obtain rest where
    "rows_where (\<lambda>t. eq_sql (Some (t_id t)) (Some templateId)) (MemeTemplates d) = t # rest"
    by blast
  with Some show ?thesis
    by (simp add: ensureTemplateAccessible_def Let_def)
qed

lemma find_SomeD:
  assumes "find P xs = Some x"
  shows "x \<in> set xs \<and> P x"
  using assms by (induction xs) (auto split: if_splits)

lemma createMemeIdea_insert_fresh:
  assumes "uuid e \<notin> i_id ` set (MemeIdeas d)"
    and "check_references (ci_templateId input) (map t_id (MemeTemplates d))"
  shows "createMemeIdea_insert e input u d =
     (Inr \<lparr>i_id = uuid e, i_userId = user_id u, i_templateId = ci_templateId input,
            i_context = ci_context input, i_topic = ci_topic input, i_createdAt = now e\<rparr>,
      (executed (Insert TMemeIdeas) d)
        \<lparr>MemeIdeas := MemeIdeas d @
           [\<lparr>i_id = uuid e, i_userId = user_id u, i_templateId = ci_templateId input,
             i_context = ci_context input, i_topic = ci_topic input, i_createdAt = now e\<rparr>]\<rparr>)"
  using assms by (simp add: createMemeIdea_insert_def insert_row_def Let_def)

lemma createMemeIdea_insert_Inr:
  assumes "fst (createMemeIdea_insert e input u d) = Inr idea"
  shows "i_templateId idea = ci_templateId input"
    and "check_references (ci_templateId input) (map t_id (MemeTemplates d))"
  using assms by (auto simp add: createMemeIdea_insert_def insert_row_def Let_def split: if_splits)

lemma createMemeIdea_insert_dangling:
  assumes "\<not> check_references (ci_templateId input) (map t_id (MemeTemplates d))"
  shows "\<exists>msg. createMemeIdea_insert e input u d =
    (Inl (DriverError msg), executed (Insert TMemeIdeas) d)"
  using assms by (simp add: createMemeIdea_insert_def insert_row_def Let_def)

lemma createMemeIdea_insert_statements:
  "statements (snd (createMemeIdea_insert e input u d)) = statements d @ [Insert TMemeIdeas]"
  by (simp add: createMemeIdea_insert_def insert_row_def Let_def)

lemma createMemeIdea_Inr_insert:
  assumes "requireUser context = Inr u"
    and "fst (createMemeIdea e input context d) = Inr idea"
  shows "\<exists>d'. MemeTemplates d' = MemeTemplates d \<and>
    fst (createMemeIdea_insert e input u d') = Inr idea"
proof (cases "truthy (ci_templateId input)")
  case False
  then have "createMemeIdea e input context d = createMemeIdea_insert e input u d"
    by (cases "ci_templateId input")
      (simp_all add: createMemeIdea_def defineAction_def createMemeIdea_handler_def assms(1))
  with assms(2) show ?thesis
    by auto
next
  case True
  then obtain templateId where tid: "ci_templateId input = Some templateId" "templateId \<noteq> []"
    by (cases "ci_templateId input") simp_all
  then have run: "createMemeIdea e input context d =
      (case ensureTemplateAccessible templateId (user_id u) d of
         (Inl err, d1) \<Rightarrow> (Inl err, d1)
       | (Inr _, d1) \<Rightarrow> createMemeIdea_insert e input u d1)"
    by (simp add: createMemeIdea_def defineAction_def createMemeIdea_handler_def assms(1))
  from assms(2) have "fst (createMemeIdea_insert e input u (executed (Select TMemeTemplates) d)) =
      Inr idea"
    by (auto simp add: run ensureTemplateAccessible_find split: option.splits if_splits)
  moreover have "MemeTemplates (executed (Select TMemeTemplates) d) = MemeTemplates d"
    by simp
  ultimately show ?thesis
    by blast
qed

text \<open>
  C2 (as amended). For a signed-in caller and a non-empty \<open>templateId\<close>, the first
  statement \<open>createMemeIdea\<close> executes is the selection of the template. When no template
  has the identifier the action signals \<open>NOT_FOUND\<close>; when the template's \<open>userId\<close> is a
  non-empty string other than the caller's it signals \<open>FORBIDDEN\<close>; in both cases the
  store returned is the one given with that one selection recorded, so no idea is
  written. An idea created from such a request refers to a template that exists and
  whose \<open>userId\<close> is \<^verbatim>\<open>NULL\<close>, empty or the caller's. For the empty string as
  \<open>templateId\<close> no template is selected: the insertion is the only statement, and when
  no template has the empty identifier the store refuses it, so the action ends in a
  store error with no idea written. Every idea created with a reference refers to an
  existing template. A request without \<open>templateId\<close> creates an idea without template,
  given a fresh identifier.
\<close>

theorem createMemeIdea_checks_template:
  assumes "requireUser context = Inr u"
  shows "(\<forall>templateId. ci_templateId input = Some templateId \<and> templateId \<noteq> [] \<longrightarrow>
      ((\<forall>t \<in> set (MemeTemplates d). t_id t \<noteq> templateId) \<longrightarrow>
         createMemeIdea e input context d =
           (Inl (ActionError NOT_FOUND ''Template not found.''),
            executed (Select TMemeTemplates) d))
      \<and> (\<forall>t. find (\<lambda>t. t_id t = templateId) (MemeTemplates d) = Some t \<and>
             t_userId t \<noteq> None \<and> t_userId t \<noteq> Some [] \<and> t_userId t \<noteq> Some (user_id u) \<longrightarrow>
         createMemeIdea e input context d =
           (Inl (ActionError FORBIDDEN ''You do not have access to this template.''),
            executed (Select TMemeTemplates) d))
      \<and> (\<forall>idea. fst (createMemeIdea e input context d) = Inr idea \<longrightarrow>
            i_templateId idea = Some templateId \<and>
            (\<exists>t \<in> set (MemeTemplates d). t_id t = templateId \<and>
               (t_userId t = None \<or> t_userId t = Some [] \<or> t_userId t = Some (user_id u))))
      \<and> (\<exists>rest. statements (snd (createMemeIdea e input context d)) =
            statements d @ Select TMemeTemplates # rest))
    \<and> (ci_templateId input = Some [] \<longrightarrow>
        statements (snd (createMemeIdea e input context d)) = statements d @ [Insert TMemeIdeas] \<and>
        ((\<forall>t \<in> set (MemeTemplates d). t_id t \<noteq> []) \<longrightarrow>
           (\<exists>msg. createMemeIdea e input context d =
              (Inl (DriverError msg), executed (Insert TMemeIdeas) d))))
    \<and> (\<forall>idea templateId. fst (createMemeIdea e input context d) = Inr idea \<and>
          i_templateId idea = Some templateId \<longrightarrow>
        (\<exists>t \<in> set (MemeTemplates d). t_id t = templateId))
    \<and> (ci_templateId input = None \<and> uuid e \<notin> i_id ` set (MemeIdeas d) \<longrightarrow>
        (\<exists>idea. fst (createMemeIdea e input context d) = Inr idea \<and> i_templateId idea = None \<and>
           MemeIdeas (snd (createMemeIdea e input context d)) = MemeIdeas d @ [idea]))"
proof -
  have nonempty: "\<forall>templateId. ci_templateId input = Some templateId \<and> templateId \<noteq> [] \<longrightarrow>
      ((\<forall>t \<in> set (MemeTemplates d). t_id t \<noteq> templateId) \<longrightarrow>
         createMemeIdea e input context d =
           (Inl (ActionError NOT_FOUND ''Template not found.''),
            executed (Select TMemeTemplates) d))
      \<and> (\<forall>t. find (\<lambda>t. t_id t = templateId) (MemeTemplates d) = Some t \<and>
             t_userId t \<noteq> None \<and> t_userId t \<noteq> Some [] \<and> t_userId t \<noteq> Some (user_id u) \<longrightarrow>
         createMemeIdea e input context d =
           (Inl (ActionError FORBIDDEN ''You do not have access to this template.''),
            executed (Select TMemeTemplates) d))
      \<and> (\<forall>idea. fst (createMemeIdea e input context d) = Inr idea \<longrightarrow>
            i_templateId idea = Some templateId \<and>
            (\<exists>t \<in> set (MemeTemplates d). t_id t = templateId \<and>
               (t_userId t = None \<or> t_userId t = Some [] \<or> t_userId t = Some (user_id u))))
      \<and> (\<exists>rest. statements (snd (createMemeIdea e input context d)) =
            statements d @ Select TMemeTemplates # rest)"
  proof (intro conjI allI impI)
    fix templateId
    assume "ci_templateId input = Some templateId \<and> templateId \<noteq> []"
    then have run: "createMemeIdea e input context d =
        (case ensureTemplateAccessible templateId (user_id u) d of
           (Inl err, d1) \<Rightarrow> (Inl err, d1)
         | (Inr _, d1) \<Rightarrow> createMemeIdea_insert e input u d1)"
      and tid: "ci_templateId input = Some templateId"
      by (simp_all add: createMemeIdea_def defineAction_def createMemeIdea_handler_def assms)
    {
      assume "\<forall>t \<in> set (MemeTemplates d). t_id t \<noteq> templateId"
      then have "find (\<lambda>t. t_id t = templateId) (MemeTemplates d) = None"
        by (simp add: find_None_iff)
      then show "createMemeIdea e input context d =
             (Inl (ActionError NOT_FOUND ''Template not found.''),
              executed (Select TMemeTemplates) d)"
        by (simp add: run ensureTemplateAccessible_find)
    next
      fix t
      assume "find (\<lambda>t. t_id t = templateId) (MemeTemplates d) = Some t \<and>
               t_userId t \<noteq> None \<and> t_userId t \<noteq> Some [] \<and> t_userId t \<noteq> Some (user_id u)"
      then show "createMemeIdea e input context d =
             (Inl (ActionError FORBIDDEN ''You do not have access to this template.''),
              executed (Select TMemeTemplates) d)"
        by (cases "t_userId t") (simp_all add: run ensureTemplateAccessible_find)
    next
      fix idea
      assume ok: "fst (createMemeIdea e input context d) = Inr idea"
      then obtain t where f: "find (\<lambda>t. t_id t = templateId) (MemeTemplates d) = Some t"
        by (cases "find (\<lambda>t. t_id t = templateId) (MemeTemplates d)")
          (simp_all add: run ensureTemplateAccessible_find)
      from ok f have acc: "\<not> (truthy (t_userId t) \<and> t_userId t \<noteq> Some (user_id u))"
        and ins: "fst (createMemeIdea_insert e input u (executed (Select TMemeTemplates) d)) =
          Inr idea"
        by (auto simp add: run ensureTemplateAccessible_find split: if_splits)
      from acc have own: "t_userId t = None \<or> t_userId t = Some [] \<or>
          t_userId t = Some (user_id u)"
        by (cases "t_userId t") auto
      from createMemeIdea_insert_Inr(1) [OF ins] tid
      show "i_templateId idea = Some templateId"
        by simp
      from find_SomeD [OF f] own
      show "\<exists>t \<in> set (MemeTemplates d). t_id t = templateId \<and>
                 (t_userId t = None \<or> t_userId t = Some [] \<or> t_userId t = Some (user_id u))"
        by blast
    next
      show "\<exists>rest. statements (snd (createMemeIdea e input context d)) =
              statements d @ Select TMemeTemplates # rest"
        by (cases "find (\<lambda>t. t_id t = templateId) (MemeTemplates d)")
          (simp_all add: run ensureTemplateAccessible_find createMemeIdea_insert_statements)
    }
  qed
  have empty: "ci_templateId input = Some [] \<longrightarrow>
        statements (snd (createMemeIdea e input context d)) = statements d @ [Insert TMemeIdeas] \<and>
        ((\<forall>t \<in> set (MemeTemplates d). t_id t \<noteq> []) \<longrightarrow>
           (\<exists>msg. createMemeIdea e input context d =
              (Inl (DriverError msg), executed (Insert TMemeIdeas) d)))"
  proof (intro conjI impI)
    assume tid: "ci_templateId input = Some []"
    then have run: "createMemeIdea e input context d = createMemeIdea_insert e input u d"
      by (simp add: createMemeIdea_def defineAction_def createMemeIdea_handler_def assms)
    show "statements (snd (createMemeIdea e input context d)) =
        statements d @ [Insert TMemeIdeas]"
      by (simp add: run createMemeIdea_insert_statements)
    assume "\<forall>t \<in> set (MemeTemplates d). t_id t \<noteq> []"
    then have "\<not> check_references (ci_templateId input) (map t_id (MemeTemplates d))"
      by (auto simp add: check_references_def tid)
    from createMemeIdea_insert_dangling [OF this]
    show "\<exists>msg. createMemeIdea e input context d =
        (Inl (DriverError msg), executed (Insert TMemeIdeas) d)"
      by (simp add: run)
  qed
  have refers: "\<forall>idea templateId. fst (createMemeIdea e input context d) = Inr idea \<and>
          i_templateId idea = Some templateId \<longrightarrow>
        (\<exists>t \<in> set (MemeTemplates d). t_id t = templateId)"
  proof (intro allI impI)
    fix idea templateId
    assume "fst (createMemeIdea e input context d) = Inr idea \<and>
        i_templateId idea = Some templateId"
    then have ok: "fst (createMemeIdea e input context d) = Inr idea"
      and ref: "i_templateId idea = Some templateId"
      by simp_all
    from createMemeIdea_Inr_insert [OF assms ok] obtain d' where
      same: "MemeTemplates d' = MemeTemplates d"
      and ins: "fst (createMemeIdea_insert e input u d') = Inr idea"
      by blast
    from createMemeIdea_insert_Inr(1) [OF ins] ref
    have inp: "ci_templateId input = Some templateId"
      by simp
    from createMemeIdea_insert_Inr(2) [OF ins]
    have "templateId \<in> set (map t_id (MemeTemplates d))"
      by (simp add: check_references_def inp same)
    then show "\<exists>t \<in> set (MemeTemplates d). t_id t = templateId"
      by auto
  qed
  have none: "ci_templateId input = None \<and> uuid e \<notin> i_id ` set (MemeIdeas d) \<longrightarrow>
        (\<exists>idea. fst (createMemeIdea e input context d) = Inr idea \<and> i_templateId idea = None \<and>
           MemeIdeas (snd (createMemeIdea e input context d)) = MemeIdeas d @ [idea])"
  proof (intro impI)
    assume "ci_templateId input = None \<and> uuid e \<notin> i_id ` set (MemeIdeas d)"
    then have no: "ci_templateId input = None" and fresh: "uuid e \<notin> i_id ` set (MemeIdeas d)"
      by simp_all
    have ref: "check_references (ci_templateId input) (map t_id (MemeTemplates d))"
      by (simp add: check_references_def no)
    have "createMemeIdea e input context d = createMemeIdea_insert e input u d"
      by (simp add: createMemeIdea_def defineAction_def createMemeIdea_handler_def assms no)
    then show "\<exists>idea. fst (createMemeIdea e input context d) = Inr idea \<and>
        i_templateId idea = None \<and>
        MemeIdeas (snd (createMemeIdea e input context d)) = MemeIdeas d @ [idea]"
      by (simp add: createMemeIdea_insert_fresh [OF fresh ref] no)
  qed
  from nonempty empty refers none show ?thesis
    by (intro conjI)
qed

text \<open>
  C2 as stated fails on a request whose \<open>templateId\<close> is the empty string, which the
  schema accepts: \<^verbatim>\<open>if (input.templateId)\<close> is false and no template is looked up.
  The template that is referred to does not exist, and the action signals no
  \<open>NOT_FOUND\<close>: it sends the insertion, which the store refuses for its foreign key.
\<close>

theorem createMemeIdea_empty_templateId:
  "createMemeIdea env1 \<lparr>ci_templateId = Some '''', ci_context = None, ci_topic = None\<rparr>
     (signed_in ''alice'') empty_db =
   (Inl (DriverError ''FOREIGN KEY constraint failed''),
    \<lparr>MemeTemplates = [], MemeIdeas = [], MemeCaptions = [],
     statements = [Insert TMemeIdeas]\<rparr>)"
  by (simp add: createMemeIdea_def defineAction_def createMemeIdea_handler_def
      createMemeIdea_insert_def insert_row_def check_references_def executed_def empty_db_def
      env1_def Let_def)

text \<open>Requests of bob on a store whose template belongs to alice.\<close>

theorem createMemeIdea_sample:
  "createMemeIdea env1 \<lparr>ci_templateId = Some ''t0'', ci_context = None, ci_topic = None\<rparr>
     (signed_in ''bob'') (sample_db (Some ''alice'')) =
     (Inl (ActionError NOT_FOUND ''Template not found.''),
      executed (Select TMemeTemplates) (sample_db (Some ''alice'')))
   \<and> createMemeIdea env1 \<lparr>ci_templateId = Some ''t1'', ci_context = None, ci_topic = None\<rparr>
     (signed_in ''bob'') (sample_db (Some ''alice'')) =
     (Inl (ActionError FORBIDDEN ''You do not have access to this template.''),
      executed (Select TMemeTemplates) (sample_db (Some ''alice'')))
   \<and> MemeIdeas (executed (Select TMemeTemplates) (sample_db (Some ''alice''))) = [idea1, idea2]
   \<and> (\<exists>msg. createMemeIdea env1
          \<lparr>ci_templateId = Some '''', ci_context = None, ci_topic = None\<rparr>
          (signed_in ''bob'') (sample_db (Some ''alice'')) =
        (Inl (DriverError msg), executed (Insert TMemeIdeas) (sample_db (Some ''alice''))))
   \<and> MemeIdeas (executed (Insert TMemeIdeas) (sample_db (Some ''alice''))) = [idea1, idea2]
   \<and> (\<exists>idea. fst (createMemeIdea env1
          \<lparr>ci_templateId = None, ci_context = None, ci_topic = None\<rparr>
          (signed_in ''bob'') (sample_db (Some ''alice''))) = Inr idea \<and> i_templateId idea = None)"
proof -
  have tabs: "MemeTemplates (sample_db owner) = [drake owner]" "t_id (drake owner) = ''t1''"
    "t_userId (drake owner) = owner" "MemeIdeas (sample_db owner) = [idea1, idea2]"
    "i_id idea1 = ''i1''" "i_id idea2 = ''i2''" "uuid env1 = ''u1''" for owner
    by (simp_all add: sample_db_def drake_def idea1_def idea2_def env1_def)
  note inst = createMemeIdea_checks_template [OF requireUser_signed_in [of "''bob''"], where e = env1
      and d = "sample_db (Some ''alice'')"]
  have a: "createMemeIdea env1 \<lparr>ci_templateId = Some ''t0'', ci_context = None, ci_topic = None\<rparr>
     (signed_in ''bob'') (sample_db (Some ''alice'')) =
     (Inl (ActionError NOT_FOUND ''Template not found.''),
      executed (Select TMemeTemplates) (sample_db (Some ''alice'')))"
    using conjunct1 [OF inst [where input =
        "\<lparr>ci_templateId = Some ''t0'', ci_context = None, ci_topic = None\<rparr>"]]
    by (simp add: tabs)
  have b: "createMemeIdea env1 \<lparr>ci_templateId = Some ''t1'', ci_context = None, ci_topic = None\<rparr>
     (signed_in ''bob'') (sample_db (Some ''alice'')) =
     (Inl (ActionError FORBIDDEN ''You do not have access to this template.''),
      executed (Select TMemeTemplates) (sample_db (Some ''alice'')))"
    using conjunct1 [OF inst [where input =
        "\<lparr>ci_templateId = Some ''t1'', ci_context = None, ci_topic = None\<rparr>"]]
    by (simp add: tabs)
  have c: "\<exists>msg. createMemeIdea env1
          \<lparr>ci_templateId = Some '''', ci_context = None, ci_topic = None\<rparr>
          (signed_in ''bob'') (sample_db (Some ''alice'')) =
        (Inl (DriverError msg), executed (Insert TMemeIdeas) (sample_db (Some ''alice'')))"
    using conjunct1 [OF conjunct2 [OF inst [where input =
        "\<lparr>ci_templateId = Some '''', ci_context = None, ci_topic = None\<rparr>"]]]
    by (simp add: tabs)
  have d: "\<exists>idea. fst (createMemeIdea env1
          \<lparr>ci_templateId = None, ci_context = None, ci_topic = None\<rparr>
          (signed_in ''bob'') (sample_db (Some ''alice''))) = Inr idea \<and> i_templateId idea = None"
    using conjunct2 [OF conjunct2 [OF conjunct2 [OF inst [where input =
        "\<lparr>ci_templateId = None, ci_context = None, ci_topic = None\<rparr>"]]]]
    by (simp add: tabs) blast
  have ideas: "MemeIdeas (executed s (sample_db (Some ''alice''))) = [idea1, idea2]" for s
    by (simp add: tabs)
  from a b ideas c ideas d show ?thesis
    by (intro conjI)
qed

section \<open>Owned ideas\<close>

lemma filter_find_Some:
  assumes "find P rs = Some x"
  shows "\<exists>rest. filter P rs = x # rest"
  using assms by (induction rs) (auto split: if_splits)

lemma filter_find_None:
  assumes "find P rs = None"
  shows "filter P rs = []"
  using assms by (simp add: find_None_iff filter_empty_conv)

lemma getOwnedIdea_result:
  "getOwnedIdea ideaId userId d =
     (case find (\<lambda>i. i_id i = ideaId \<and> i_userId i = userId) (MemeIdeas d) of
        None \<Rightarrow> (Inl (ActionError NOT_FOUND ''Meme idea not found.''),
                 executed (Select TMemeIdeas) d)
      | Some idea \<Rightarrow> (Inr idea, executed (Select TMemeIdeas) d))"
proof (cases "find (\<lambda>i. i_id i = ideaId \<and> i_userId i = userId) (MemeIdeas d)")
  case None
  from filter_find_None [OF this] None show ?thesis
    by (simp add: getOwnedIdea_def rows_where_def)
next
  case (Some idea)
  from filter_find_Some [OF this] Some show ?thesis
    by (auto simp add: getOwnedIdea_def rows_where_def)
qed

section \<open>The update of a caption\<close>

text \<open>The action, for an input that passes the schema, a caller and an owned idea.\<close>

lemma updateMemeCaption_schema_Some:
  "updateMemeCaption_schema input = Some i \<longleftrightarrow>
     i = input \<and> up_id input \<noteq> [] \<and> up_memeIdeaId input \<noteq> [] \<and> updateMemeCaption_refine input"
  by (auto simp add: updateMemeCaption_schema_def Suc_le_eq)

lemma updateMemeCaption_Inr_iff:
  "(\<exists>r. fst (updateMemeCaption input context d) = Inr r) \<longleftrightarrow>
     up_id input \<noteq> [] \<and> up_memeIdeaId input \<noteq> [] \<and> updateMemeCaption_refine input \<and>
     (\<exists>u. requireUser context = Inr u \<and>
        (\<exists>i \<in> set (MemeIdeas d). i_id i = up_memeIdeaId input \<and> i_userId i = user_id u)) \<and>
     (\<exists>c \<in> set (MemeCaptions d). c_id c = up_id input \<and> c_memeIdeaId c = up_memeIdeaId input)"
  (is "?l \<longleftrightarrow> ?r")
proof (cases "updateMemeCaption_schema input")
  case None
  then have "\<not> (up_id input \<noteq> [] \<and> up_memeIdeaId input \<noteq> [] \<and> updateMemeCaption_refine input)"
    by (simp add: updateMemeCaption_schema_def Suc_le_eq split: if_splits)
  with None show ?thesis
    by (auto simp add: updateMemeCaption_def defineAction_def)
next
  case (Some i)
  then have i: "i = input" and valid: "up_id input \<noteq> []" "up_memeIdeaId input \<noteq> []"
    "updateMemeCaption_refine input"
    by (simp_all add: updateMemeCaption_schema_Some)
  show ?thesis
  proof (cases "requireUser context")
    case (Inl err)
    with Some i show ?thesis
      by (simp add: updateMemeCaption_def defineAction_def updateMemeCaption_handler_def)
  next
    case (Inr u)
    show ?thesis
    proof (cases "find (\<lambda>i. i_id i = up_memeIdeaId input \<and> i_userId i = user_id u) (MemeIdeas d)")
      case None
      then have "\<not> (\<exists>i \<in> set (MemeIdeas d). i_id i = up_memeIdeaId input \<and> i_userId i = user_id u)"
        by (simp add: find_None_iff)
      with None Some i Inr show ?thesis
        by (simp add: updateMemeCaption_def defineAction_def updateMemeCaption_handler_def
            getOwnedIdea_result)
    next
      case idea: (Some idea)
      then have owned: "\<exists>i \<in> set (MemeIdeas d). i_id i = up_memeIdeaId input \<and> i_userId i = user_id u"
        using find_SomeD by fastforce
      let ?ex = "filter (\<lambda>c. c_id c = up_id input \<and> c_memeIdeaId c = up_memeIdeaId input)
          (MemeCaptions d)"
      show ?thesis
      proof (cases ?ex)
        case Nil
        then have "\<not> (\<exists>c \<in> set (MemeCaptions d). c_id c = up_id input \<and>
            c_memeIdeaId c = up_memeIdeaId input)"
          by (simp add: filter_empty_conv)
        with Nil idea Some i Inr show ?thesis
          by (simp add: updateMemeCaption_def defineAction_def updateMemeCaption_handler_def
              getOwnedIdea_result rows_where_def)
      next
        case (Cons c rest)
        then have "c \<in> set ?ex" by simp
        then have ex: "\<exists>c \<in> set (MemeCaptions d). c_id c = up_id input \<and>
            c_memeIdeaId c = up_memeIdeaId input"
          by auto
        from Cons idea Some i Inr valid have "?l"
          by (simp add: updateMemeCaption_def defineAction_def updateMemeCaption_handler_def
              getOwnedIdea_result rows_where_def updateMemeCaption_update_def Let_def)
        with ex owned valid Inr show ?thesis
          by blast
      qed
    qed
  qed
qed

lemma updateMemeCaption_tables:
  "MemeTemplates (snd (updateMemeCaption input context d)) = MemeTemplates d"
  "MemeIdeas (snd (updateMemeCaption input context d)) = MemeIdeas d"
  "MemeCaptions (snd (updateMemeCaption input context d)) =
     (case fst (updateMemeCaption input context d) of
        Inl err \<Rightarrow> MemeCaptions d
      | Inr r \<Rightarrow> map (\<lambda>c. if c_id c = up_id input then updateMemeCaption_set input c else c)
                  (MemeCaptions d))"
  by (simp_all add: updateMemeCaption_def defineAction_def updateMemeCaption_handler_def
      updateMemeCaption_update_def getOwnedIdea_result Let_def updateMemeCaption_schema_def
      split: option.split sum.split list.split)

lemma updateMemeCaption_returned:
  assumes "fst (updateMemeCaption input context d) = Inr r"
  shows "r = (case filter (\<lambda>c. c_id c = up_id input) (MemeCaptions d) of
                [] \<Rightarrow> None | c # _ \<Rightarrow> Some (updateMemeCaption_set input c))"
  using assms
  by (auto simp add: updateMemeCaption_def defineAction_def updateMemeCaption_handler_def
      updateMemeCaption_update_def getOwnedIdea_result Let_def updateMemeCaption_schema_def
      rows_where_def
      split: option.splits sum.splits list.splits if_splits)

lemma updateMemeCaption_set_fields:
  "c_variantLabel (updateMemeCaption_set input c) =
     (case up_variantLabel input of None \<Rightarrow> c_variantLabel c | Some v \<Rightarrow> Some v)"
  "c_topText (updateMemeCaption_set input c) =
     (case up_topText input of None \<Rightarrow> c_topText c | Some v \<Rightarrow> Some v)"
  "c_bottomText (updateMemeCaption_set input c) =
     (case up_bottomText input of None \<Rightarrow> c_bottomText c | Some v \<Rightarrow> Some v)"
  "c_extraText (updateMemeCaption_set input c) =
     (case up_extraText input of None \<Rightarrow> c_extraText c | Some v \<Rightarrow> Some v)"
  "c_isFavorite (updateMemeCaption_set input c) =
     (case up_isFavorite input of None \<Rightarrow> c_isFavorite c | Some b \<Rightarrow> b)"
  "c_isUsed (updateMemeCaption_set input c) =
     (case up_isUsed input of None \<Rightarrow> c_isUsed c | Some b \<Rightarrow> b)"
  "c_id (updateMemeCaption_set input c) = c_id c"
  "c_memeIdeaId (updateMemeCaption_set input c) = c_memeIdeaId c"
  "c_createdAt (updateMemeCaption_set input c) = c_createdAt c"
  by (simp_all add: updateMemeCaption_set_def)

lemma filter_first_index:
  assumes "filter P xs = x # rest"
  shows "\<exists>k < length xs. P (xs ! k) \<and> xs ! k = x"
proof -
  from assms have "x \<in> set (filter P xs)" by simp
  then have "x \<in> set xs" and "P x" by simp_all
  then show ?thesis by (auto simp add: in_set_conv_nth)
qed

text \<open>
  C5. After a successful \<open>updateMemeCaption\<close> the table has the rows it had, in the same
  places. A row with another identifier is unchanged. In a row with the request's
  identifier, each of the six updatable columns has the supplied value when the input
  has the field and its former value when it has not, and the identifier, the idea and
  the creation date are the former ones. The caption returned is such an updated row.
  So an update of \<open>isFavorite\<close> alone leaves the texts, the label and \<open>isUsed\<close> as they
  were.
\<close>

theorem updateMemeCaption_partial_update:
  assumes "fst (updateMemeCaption input context d) = Inr r"
    and "old = MemeCaptions d"
    and "new = MemeCaptions (snd (updateMemeCaption input context d))"
  shows "length new = length old
    \<and> (\<forall>k < length old.
          (c_id (old ! k) \<noteq> up_id input \<longrightarrow> new ! k = old ! k) \<and>
          (c_id (old ! k) = up_id input \<longrightarrow>
           c_variantLabel (new ! k) =
             (case up_variantLabel input of None \<Rightarrow> c_variantLabel (old ! k) | Some v \<Rightarrow> Some v) \<and>
           c_topText (new ! k) =
             (case up_topText input of None \<Rightarrow> c_topText (old ! k) | Some v \<Rightarrow> Some v) \<and>
           c_bottomText (new ! k) =
             (case up_bottomText input of None \<Rightarrow> c_bottomText (old ! k) | Some v \<Rightarrow> Some v) \<and>
           c_extraText (new ! k) =
             (case up_extraText input of None \<Rightarrow> c_extraText (old ! k) | Some v \<Rightarrow> Some v) \<and>
           c_isFavorite (new ! k) =
             (case up_isFavorite input of None \<Rightarrow> c_isFavorite (old ! k) | Some b \<Rightarrow> b) \<and>
           c_isUsed (new ! k) =
             (case up_isUsed input of None \<Rightarrow> c_isUsed (old ! k) | Some b \<Rightarrow> b) \<and>
           c_id (new ! k) = c_id (old ! k) \<and> c_memeIdeaId (new ! k) = c_memeIdeaId (old ! k) \<and>
           c_createdAt (new ! k) = c_createdAt (old ! k)))
    \<and> (\<exists>k < length old. c_id (old ! k) = up_id input \<and> r = Some (new ! k))"
proof -
  let ?f = "\<lambda>c. if c_id c = up_id input then updateMemeCaption_set input c else c"
  have new: "new = map ?f old"
    using assms by (simp add: updateMemeCaption_tables)
  then have len: "length new = length old"
    by simp
  have rows: "\<forall>k < length old.
          (c_id (old ! k) \<noteq> up_id input \<longrightarrow> new ! k = old ! k) \<and>
          (c_id (old ! k) = up_id input \<longrightarrow>
           c_variantLabel (new ! k) =
             (case up_variantLabel input of None \<Rightarrow> c_variantLabel (old ! k) | Some v \<Rightarrow> Some v) \<and>
           c_topText (new ! k) =
             (case up_topText input of None \<Rightarrow> c_topText (old ! k) | Some v \<Rightarrow> Some v) \<and>
           c_bottomText (new ! k) =
             (case up_bottomText input of None \<Rightarrow> c_bottomText (old ! k) | Some v \<Rightarrow> Some v) \<and>
           c_extraText (new ! k) =
             (case up_extraText input of None \<Rightarrow> c_extraText (old ! k) | Some v \<Rightarrow> Some v) \<and>
           c_isFavorite (new ! k) =
             (case up_isFavorite input of None \<Rightarrow> c_isFavorite (old ! k) | Some b \<Rightarrow> b) \<and>
           c_isUsed (new ! k) =
             (case up_isUsed input of None \<Rightarrow> c_isUsed (old ! k) | Some b \<Rightarrow> b) \<and>
           c_id (new ! k) = c_id (old ! k) \<and> c_memeIdeaId (new ! k) = c_memeIdeaId (old ! k) \<and>
           c_createdAt (new ! k) = c_createdAt (old ! k))"
    by (simp add: new updateMemeCaption_set_fields)
  from assms(1) have "\<exists>r. fst (updateMemeCaption input context d) = Inr r"
    by blast
  then obtain c where "c \<in> set old" and "c_id c = up_id input"
    unfolding updateMemeCaption_Inr_iff assms(2) by blast
  then have "filter (\<lambda>c. c_id c = up_id input) old \<noteq> []"
    by (auto simp add: filter_empty_conv)
  then obtain c0 rest where c0: "filter (\<lambda>c. c_id c = up_id input) old = c0 # rest"
    by (cases "filter (\<lambda>c. c_id c = up_id input) old") auto
  from updateMemeCaption_returned [OF assms(1)] c0
  have r: "r = Some (updateMemeCaption_set input c0)"
    by (simp add: assms(2))
  from filter_first_index [OF c0] obtain k where
    k: "k < length old" "c_id (old ! k) = up_id input" "old ! k = c0"
    by blast
  then have "new ! k = updateMemeCaption_set input c0"
    by (simp add: new)
  with r k have ret: "\<exists>k < length old. c_id (old ! k) = up_id input \<and> r = Some (new ! k)"
    by auto
  from len rows ret show ?thesis
    by (intro conjI)
qed

text \<open>
  C10. The identifiers of the captions being distinct (\<open>id\<close> is the primary key),
  every row that \<open>updateMemeCaption\<close> changes has the identifier and the idea stated in the
  request, before and after; no row is added or removed, and the other tables are
  untouched. The final \<^verbatim>\<open>UPDATE\<close> matches on the identifier alone: the row it matches
  is the one the preceding selection found under the stated idea.
\<close>

theorem updateMemeCaption_within_idea:
  assumes "distinct (map c_id (MemeCaptions d))"
    and "old = MemeCaptions d"
    and "new = MemeCaptions (snd (updateMemeCaption input context d))"
  shows "length new = length old
    \<and> (\<forall>k < length old. new ! k \<noteq> old ! k \<longrightarrow>
          c_id (old ! k) = up_id input \<and> c_memeIdeaId (old ! k) = up_memeIdeaId input \<and>
          c_id (new ! k) = up_id input \<and> c_memeIdeaId (new ! k) = up_memeIdeaId input)
    \<and> MemeTemplates (snd (updateMemeCaption input context d)) = MemeTemplates d
    \<and> MemeIdeas (snd (updateMemeCaption input context d)) = MemeIdeas d"
proof (cases "fst (updateMemeCaption input context d)")
  case (Inl err)
  then have same: "new = old"
    by (simp add: assms updateMemeCaption_tables)
  have "length new = length old"
    and "\<forall>k < length old. new ! k \<noteq> old ! k \<longrightarrow>
          c_id (old ! k) = up_id input \<and> c_memeIdeaId (old ! k) = up_memeIdeaId input \<and>
          c_id (new ! k) = up_id input \<and> c_memeIdeaId (new ! k) = up_memeIdeaId input"
    by (simp_all add: same)
  moreover have "MemeTemplates (snd (updateMemeCaption input context d)) = MemeTemplates d"
    "MemeIdeas (snd (updateMemeCaption input context d)) = MemeIdeas d"
    by (fact updateMemeCaption_tables)+
  ultimately show ?thesis
    by (intro conjI)
next
  case (Inr r)
  let ?f = "\<lambda>c. if c_id c = up_id input then updateMemeCaption_set input c else c"
  have new: "new = map ?f old"
    using Inr by (simp add: assms updateMemeCaption_tables)
  from Inr have "\<exists>r. fst (updateMemeCaption input context d) = Inr r"
    by blast
  then obtain c where c: "c \<in> set old" "c_id c = up_id input"
    "c_memeIdeaId c = up_memeIdeaId input"
    unfolding updateMemeCaption_Inr_iff assms(2) by blast
  have inj: "inj_on c_id (set old)"
    using assms(1) by (simp add: assms(2) distinct_map)
  have rows: "\<forall>k < length old. new ! k \<noteq> old ! k \<longrightarrow>
          c_id (old ! k) = up_id input \<and> c_memeIdeaId (old ! k) = up_memeIdeaId input \<and>
          c_id (new ! k) = up_id input \<and> c_memeIdeaId (new ! k) = up_memeIdeaId input"
  proof (intro allI impI)
    fix k
    assume k: "k < length old" and changed: "new ! k \<noteq> old ! k"
    then have id: "c_id (old ! k) = up_id input"
      by (auto simp add: new split: if_splits)
    have same: "c_id (old ! k) = c_id c"
      using id c(2) by simp
    have "old ! k \<in> set old"
      using k by simp
    from inj_onD [OF inj same this c(1)] have row: "old ! k = c" .
    have nk: "new ! k = updateMemeCaption_set input c"
      using k id row by (simp add: new)
    show "c_id (old ! k) = up_id input \<and> c_memeIdeaId (old ! k) = up_memeIdeaId input \<and>
          c_id (new ! k) = up_id input \<and> c_memeIdeaId (new ! k) = up_memeIdeaId input"
      unfolding nk row updateMemeCaption_set_fields using c(2,3) by (intro conjI)
  qed
  have len: "length new = length old"
    by (simp add: new)
  have others: "MemeTemplates (snd (updateMemeCaption input context d)) = MemeTemplates d"
    "MemeIdeas (snd (updateMemeCaption input context d)) = MemeIdeas d"
    by (fact updateMemeCaption_tables)+
  from len rows others show ?thesis
    by (intro conjI)
qed

lemma sample_captions:
  "MemeCaptions (sample_db owner) =
     [caption ''c1'' ''i1'' False False, caption ''c2'' ''i1'' True False,
      caption ''c3'' ''i1'' True True, caption ''c4'' ''i2'' False True]"
  "MemeIdeas (sample_db owner) = [idea1, idea2]"
  "c_id (caption cid iid fav used) = cid"
  "c_memeIdeaId (caption cid iid fav used) = iid"
  "c_isFavorite (caption cid iid fav used) = fav"
  "c_isUsed (caption cid iid fav used) = used"
  "c_topText (caption cid iid fav used) = Some ''x''"
  "i_id idea1 = ''i1''" "i_userId idea1 = ''alice''"
  "i_id idea2 = ''i2''" "i_userId idea2 = ''alice''"
  by (simp_all add: sample_db_def caption_def idea1_def idea2_def)

text \<open>
  Alice marks her caption \<open>c1\<close>, whose top text is \<open>x\<close>, as a favorite: the caption
  returned and stored has the top text and the flag, and the next row is untouched.
\<close>

theorem updateMemeCaption_favorite_sample:
  "fst (updateMemeCaption
      \<lparr>up_id = ''c1'', up_memeIdeaId = ''i1'', up_variantLabel = None, up_topText = None,
       up_bottomText = None, up_extraText = None, up_isFavorite = Some True, up_isUsed = None\<rparr>
      (signed_in ''alice'') (sample_db None)) = Inr (Some (caption ''c1'' ''i1'' True False))
   \<and> c_topText (MemeCaptions (snd (updateMemeCaption
      \<lparr>up_id = ''c1'', up_memeIdeaId = ''i1'', up_variantLabel = None, up_topText = None,
       up_bottomText = None, up_extraText = None, up_isFavorite = Some True, up_isUsed = None\<rparr>
      (signed_in ''alice'') (sample_db None))) ! 0) = Some ''x''
   \<and> c_isFavorite (MemeCaptions (snd (updateMemeCaption
      \<lparr>up_id = ''c1'', up_memeIdeaId = ''i1'', up_variantLabel = None, up_topText = None,
       up_bottomText = None, up_extraText = None, up_isFavorite = Some True, up_isUsed = None\<rparr>
      (signed_in ''alice'') (sample_db None))) ! 0)
   \<and> MemeCaptions (snd (updateMemeCaption
      \<lparr>up_id = ''c1'', up_memeIdeaId = ''i1'', up_variantLabel = None, up_topText = None,
       up_bottomText = None, up_extraText = None, up_isFavorite = Some True, up_isUsed = None\<rparr>
      (signed_in ''alice'') (sample_db None))) ! 1 = caption ''c2'' ''i1'' True False"
proof -
  let ?input = "\<lparr>up_id = ''c1'', up_memeIdeaId = ''i1'', up_variantLabel = None,
       up_topText = None, up_bottomText = None, up_extraText = None,
       up_isFavorite = Some True, up_isUsed = None\<rparr>"
  let ?old = "MemeCaptions (sample_db None)"
  let ?new = "MemeCaptions (snd (updateMemeCaption ?input (signed_in ''alice'') (sample_db None)))"
  have ok: "fst (updateMemeCaption ?input (signed_in ''alice'') (sample_db None)) =
      Inr (Some (caption ''c1'' ''i1'' True False))"
    by (simp add: updateMemeCaption_def defineAction_def updateMemeCaption_schema_def
        updateMemeCaption_refine_def updateMemeCaption_handler_def getOwnedIdea_result
        rows_where_def updateMemeCaption_update_def Let_def sample_captions)
      (simp add: caption_def updateMemeCaption_set_def)
  note inst = updateMemeCaption_partial_update [OF ok refl refl]
  have k0: "0 < length ?old" and k1: "1 < length ?old"
    by (simp_all add: sample_captions)
  have old0: "?old ! 0 = caption ''c1'' ''i1'' False False"
    and old1: "?old ! 1 = caption ''c2'' ''i1'' True False"
    by (simp_all add: sample_captions)
  note r0 = conjunct1 [OF conjunct2 [OF inst], rule_format, OF k0]
  note r1 = conjunct1 [OF conjunct2 [OF inst], rule_format, OF k1]
  from r0 have a: "c_topText (?new ! 0) = Some ''x''" and b: "c_isFavorite (?new ! 0)"
    unfolding old0 by (simp_all add: sample_captions)
  from r1 have c: "?new ! 1 = caption ''c2'' ''i1'' True False"
    unfolding old1 by (simp add: sample_captions)
  from ok a b c show ?thesis
    by (intro conjI)
qed

text \<open>
  Alice asks to update caption \<open>c4\<close> under idea \<open>i1\<close>; the caption belongs to idea
  \<open>i2\<close>, and no row changes.
\<close>

theorem updateMemeCaption_other_idea_sample:
  "MemeCaptions (snd (updateMemeCaption
      \<lparr>up_id = ''c4'', up_memeIdeaId = ''i1'', up_variantLabel = None, up_topText = None,
       up_bottomText = None, up_extraText = None, up_isFavorite = Some True, up_isUsed = None\<rparr>
      (signed_in ''alice'') (sample_db None))) = MemeCaptions (sample_db None)"
proof -
  let ?input = "\<lparr>up_id = ''c4'', up_memeIdeaId = ''i1'', up_variantLabel = None,
       up_topText = None, up_bottomText = None, up_extraText = None,
       up_isFavorite = Some True, up_isUsed = None\<rparr>"
  let ?old = "MemeCaptions (sample_db None)"
  let ?new = "MemeCaptions (snd (updateMemeCaption ?input (signed_in ''alice'') (sample_db None)))"
  have pk: "distinct (map c_id ?old)"
    by (simp add: sample_captions)
  note inst = updateMemeCaption_within_idea [OF pk refl refl, of "?input" "signed_in ''alice''"]
  note len = conjunct1 [OF inst]
  have none: "\<forall>c \<in> set ?old. \<not> (c_id c = ''c4'' \<and> c_memeIdeaId c = ''i1'')"
    by (simp add: sample_captions)
  have eq: "?new ! k = ?old ! k" if k: "k < length ?old" for k
  proof (rule ccontr)
    assume neq: "?new ! k \<noteq> ?old ! k"
    note changed = conjunct1 [OF conjunct2 [OF inst], rule_format, OF k neq]
    then have "c_id (?old ! k) = ''c4'' \<and> c_memeIdeaId (?old ! k) = ''i1''"
      by simp
    moreover from k have "?old ! k \<in> set ?old"
      by (rule nth_mem)
    ultimately show False
      using none by blast
  qed
  show ?thesis
  proof (rule nth_equalityI)
    show "length ?new = length ?old"
      by (fact len)
  next
    fix i
    assume "i < length ?new"
    then have "i < length ?old"
      unfolding len .
    then show "?new ! i = ?old ! i"
      by (rule eq)
  qed
qed


text \<open>
  The identifiers of the captions stay distinct: the store refuses a second row with a
  key it has, an update keeps the keys, and a deletion only removes rows.
\<close>

lemma pk_empty: "distinct (map c_id (MemeCaptions empty_db))"
  by (simp add: empty_db_def)

lemma pk_updateMemeCaption:
  assumes "distinct (map c_id (MemeCaptions d))"
  shows "distinct (map c_id (MemeCaptions (snd (updateMemeCaption input context d))))"
proof (cases "fst (updateMemeCaption input context d)")
  case (Inl err)
  with assms show ?thesis
    by (simp add: updateMemeCaption_tables)
next
  case (Inr r)
  have "c_id \<circ> (\<lambda>c. if c_id c = up_id input then updateMemeCaption_set input c else c) = c_id"
    by (rule ext) (simp add: updateMemeCaption_set_fields)
  with assms Inr show ?thesis
    by (simp add: updateMemeCaption_tables)
qed

lemma createMemeCaption_captions:
  "MemeCaptions (snd (createMemeCaption e input context d)) = MemeCaptions d \<or>
   (uuid e \<notin> c_id ` set (MemeCaptions d) \<and>
    (\<exists>c. c_id c = uuid e \<and>
       MemeCaptions (snd (createMemeCaption e input context d)) = MemeCaptions d @ [c]))"
proof (cases "createMemeCaption_schema input")
  case None
  then show ?thesis
    by (simp add: createMemeCaption_def defineAction_def)
next
  case (Some i)
  show ?thesis
  proof (cases "requireUser context")
    case (Inl err)
    with Some show ?thesis
      by (simp add: createMemeCaption_def defineAction_def createMemeCaption_handler_def)
  next
    case (Inr u)
    show ?thesis
    proof (cases "find (\<lambda>x. i_id x = cc_memeIdeaId i \<and> i_userId x = user_id u) (MemeIdeas d)")
      case None
      with Some Inr show ?thesis
        by (simp add: createMemeCaption_def defineAction_def createMemeCaption_handler_def
            getOwnedIdea_result)
    next
      case idea: (Some idea)
      with Some Inr show ?thesis
        by (simp add: createMemeCaption_def defineAction_def createMemeCaption_handler_def
            getOwnedIdea_result insert_row_def check_references_def Let_def)
    qed
  qed
qed

lemma pk_createMemeCaption:
  assumes "distinct (map c_id (MemeCaptions d))"
  shows "distinct (map c_id (MemeCaptions (snd (createMemeCaption e input context d))))"
  using createMemeCaption_captions [of e input "context" d] assms
  by auto

section \<open>Deleting a caption\<close>

lemma deleteMemeCaption_invalid:
  assumes "de_id input = [] \<or> de_memeIdeaId input = []"
  shows "deleteMemeCaption input context d = (Inl ActionInputError, d)"
  using assms
  by (auto simp add: deleteMemeCaption_def defineAction_def deleteMemeCaption_schema_def)

lemma deleteMemeCaption_unauthorized:
  assumes "de_id input \<noteq> []" and "de_memeIdeaId input \<noteq> []" and "requireUser context = Inl err"
  shows "deleteMemeCaption input context d = (Inl err, d)"
  using assms
  by (simp add: deleteMemeCaption_def defineAction_def deleteMemeCaption_schema_def
      deleteMemeCaption_handler_def Suc_le_eq)

lemma deleteMemeCaption_not_owned:
  assumes "de_id input \<noteq> []" and "de_memeIdeaId input \<noteq> []" and "requireUser context = Inr u"
    and "\<not> (\<exists>i \<in> set (MemeIdeas d). i_id i = de_memeIdeaId input \<and> i_userId i = user_id u)"
  shows "deleteMemeCaption input context d =
    (Inl (ActionError NOT_FOUND ''Meme idea not found.''), executed (Select TMemeIdeas) d)"
proof -
  from assms(4) have "find (\<lambda>i. i_id i = de_memeIdeaId input \<and> i_userId i = user_id u)
      (MemeIdeas d) = None"
    by (simp add: find_None_iff)
  with assms(1-3) show ?thesis
    by (simp add: deleteMemeCaption_def defineAction_def deleteMemeCaption_schema_def
        deleteMemeCaption_handler_def Suc_le_eq getOwnedIdea_result)
qed

lemma deleteMemeCaption_owned:
  assumes "de_id input \<noteq> []" and "de_memeIdeaId input \<noteq> []" and "requireUser context = Inr u"
    and "\<exists>i \<in> set (MemeIdeas d). i_id i = de_memeIdeaId input \<and> i_userId i = user_id u"
  shows "deleteMemeCaption input context d =
    (if (\<exists>c \<in> set (MemeCaptions d). c_id c = de_id input \<and> c_memeIdeaId c = de_memeIdeaId input)
     then Inr () else Inl (ActionError NOT_FOUND ''Meme caption not found.''),
     (executed (Delete TMemeCaptions) (executed (Select TMemeIdeas) d))
       \<lparr>MemeCaptions :=
          filter (\<lambda>c. \<not> (c_id c = de_id input \<and> c_memeIdeaId c = de_memeIdeaId input))
            (MemeCaptions d)\<rparr>)"
proof -
  from assms(4) obtain idea where "find (\<lambda>i. i_id i = de_memeIdeaId input \<and> i_userId i = user_id u)
      (MemeIdeas d) = Some idea"
    by (cases "find (\<lambda>i. i_id i = de_memeIdeaId input \<and> i_userId i = user_id u) (MemeIdeas d)")
      (auto simp add: find_None_iff)
  with assms(1-3) show ?thesis
    by (simp add: deleteMemeCaption_def defineAction_def deleteMemeCaption_schema_def
        deleteMemeCaption_handler_def Suc_le_eq getOwnedIdea_result rows_where_def
        rows_unless_def Let_def filter_empty_conv)
qed

text \<open>The four cases together: what the action returns and what it leaves in the table.\<close>

lemma deleteMemeCaption_summary:
  "(fst (deleteMemeCaption input context d) = Inr () \<longleftrightarrow>
      de_id input \<noteq> [] \<and> de_memeIdeaId input \<noteq> [] \<and>
      (\<exists>u. requireUser context = Inr u \<and>
         (\<exists>i \<in> set (MemeIdeas d). i_id i = de_memeIdeaId input \<and> i_userId i = user_id u)) \<and>
      (\<exists>c \<in> set (MemeCaptions d). c_id c = de_id input \<and> c_memeIdeaId c = de_memeIdeaId input))
   \<and> MemeCaptions (snd (deleteMemeCaption input context d)) =
      (if fst (deleteMemeCaption input context d) = Inr ()
       then filter (\<lambda>c. \<not> (c_id c = de_id input \<and> c_memeIdeaId c = de_memeIdeaId input))
              (MemeCaptions d)
       else MemeCaptions d)"
proof (cases "de_id input = [] \<or> de_memeIdeaId input = []")
  case True
  from deleteMemeCaption_invalid [OF True] True show ?thesis
    by auto
next
  case False
  then have valid: "de_id input \<noteq> []" "de_memeIdeaId input \<noteq> []"
    by simp_all
  show ?thesis
  proof (cases "requireUser context")
    case (Inl err)
    from deleteMemeCaption_unauthorized [OF valid Inl] Inl show ?thesis
      by simp
  next
    case (Inr u)
    show ?thesis
    proof (cases "\<exists>i \<in> set (MemeIdeas d). i_id i = de_memeIdeaId input \<and> i_userId i = user_id u")
      case False
      from deleteMemeCaption_not_owned [OF valid Inr False] Inr False show ?thesis
        by simp
    next
      case True
      note del = deleteMemeCaption_owned [OF valid Inr True]
      show ?thesis
      proof (cases "\<exists>c \<in> set (MemeCaptions d). c_id c = de_id input \<and>
          c_memeIdeaId c = de_memeIdeaId input")
        case found: True
        with del Inr True valid show ?thesis
          by auto
      next
        case missing: False
        then have "filter (\<lambda>c. \<not> (c_id c = de_id input \<and> c_memeIdeaId c = de_memeIdeaId input))
            (MemeCaptions d) = MemeCaptions d"
          by (simp add: filter_id_conv)
        with del missing show ?thesis
          by simp
      qed
    qed
  qed
qed

lemma pk_deleteMemeCaption:
  assumes "distinct (map c_id (MemeCaptions d))"
  shows "distinct (map c_id (MemeCaptions (snd (deleteMemeCaption input context d))))"
  using assms by (simp add: deleteMemeCaption_summary distinct_map_filter)

text \<open>
  C7 (as amended). When no caption has both the identifier and the idea of the request
  (the caption was deleted before, never existed, or belongs to another idea),
  \<open>deleteMemeCaption\<close> does not succeed and removes nothing; for a signed-in caller and a
  well-formed request the error is \<open>NOT_FOUND\<close>, about the caption when the caller owns
  the idea and about the idea otherwise. The action succeeds exactly when the table has
  lost rows, and the rows lost are the matching ones. A request with an empty identifier
  or idea raises the input error, and a well-formed request without identity signals
  \<open>UNAUTHORIZED\<close>, in both cases with the store as it was.
\<close>

theorem deleteMemeCaption_not_found_or_deleted:
  "((\<forall>c \<in> set (MemeCaptions d).
       \<not> (c_id c = de_id input \<and> c_memeIdeaId c = de_memeIdeaId input)) \<longrightarrow>
      fst (deleteMemeCaption input context d) \<noteq> Inr () \<and>
      MemeCaptions (snd (deleteMemeCaption input context d)) = MemeCaptions d \<and>
      (\<forall>u. requireUser context = Inr u \<and> de_id input \<noteq> [] \<and> de_memeIdeaId input \<noteq> [] \<longrightarrow>
         fst (deleteMemeCaption input context d) =
           Inl (ActionError NOT_FOUND
             (if \<exists>i \<in> set (MemeIdeas d). i_id i = de_memeIdeaId input \<and> i_userId i = user_id u
              then ''Meme caption not found.'' else ''Meme idea not found.''))))
   \<and> (fst (deleteMemeCaption input context d) = Inr () \<longleftrightarrow>
        length (MemeCaptions (snd (deleteMemeCaption input context d))) < length (MemeCaptions d))
   \<and> (fst (deleteMemeCaption input context d) = Inr () \<longrightarrow>
        MemeCaptions (snd (deleteMemeCaption input context d)) =
          filter (\<lambda>c. \<not> (c_id c = de_id input \<and> c_memeIdeaId c = de_memeIdeaId input))
            (MemeCaptions d))
   \<and> (de_id input = [] \<or> de_memeIdeaId input = [] \<longrightarrow>
        deleteMemeCaption input context d = (Inl ActionInputError, d))
   \<and> (de_id input \<noteq> [] \<and> de_memeIdeaId input \<noteq> [] \<and>
        (\<forall>l. locals context = Some l \<longrightarrow> user l = None) \<longrightarrow>
        deleteMemeCaption input context d =
          (Inl (ActionError UNAUTHORIZED ''You must be signed in to perform this action.''), d))"
proof -
  let ?match = "\<lambda>c. c_id c = de_id input \<and> c_memeIdeaId c = de_memeIdeaId input"
  let ?res = "deleteMemeCaption input context d"
  note sum = deleteMemeCaption_summary [of input "context" d]
  have a: "(\<forall>c \<in> set (MemeCaptions d). \<not> ?match c) \<longrightarrow>
      fst ?res \<noteq> Inr () \<and> MemeCaptions (snd ?res) = MemeCaptions d \<and>
      (\<forall>u. requireUser context = Inr u \<and> de_id input \<noteq> [] \<and> de_memeIdeaId input \<noteq> [] \<longrightarrow>
         fst ?res =
           Inl (ActionError NOT_FOUND
             (if \<exists>i \<in> set (MemeIdeas d). i_id i = de_memeIdeaId input \<and> i_userId i = user_id u
              then ''Meme caption not found.'' else ''Meme idea not found.'')))"
  proof (intro impI conjI allI)
    assume none: "\<forall>c \<in> set (MemeCaptions d). \<not> ?match c"
    with sum show fail: "fst ?res \<noteq> Inr ()"
      by blast
    with sum show "MemeCaptions (snd ?res) = MemeCaptions d"
      by simp
    fix u
    assume "requireUser context = Inr u \<and> de_id input \<noteq> [] \<and> de_memeIdeaId input \<noteq> []"
    then have u: "requireUser context = Inr u" and valid: "de_id input \<noteq> []"
      "de_memeIdeaId input \<noteq> []"
      by simp_all
    show "fst ?res = Inl (ActionError NOT_FOUND
             (if \<exists>i \<in> set (MemeIdeas d). i_id i = de_memeIdeaId input \<and> i_userId i = user_id u
              then ''Meme caption not found.'' else ''Meme idea not found.''))"
    proof (cases "\<exists>i \<in> set (MemeIdeas d). i_id i = de_memeIdeaId input \<and> i_userId i = user_id u")
      case True
      from deleteMemeCaption_owned [OF valid u True] none True show ?thesis
        by simp
    next
      case False
      from deleteMemeCaption_not_owned [OF valid u False] False show ?thesis
        by simp
    qed
  qed
  have c: "fst ?res = Inr () \<longrightarrow> MemeCaptions (snd ?res) = filter (\<lambda>c. \<not> ?match c) (MemeCaptions d)"
    using sum by simp
  have b: "fst ?res = Inr () \<longleftrightarrow> length (MemeCaptions (snd ?res)) < length (MemeCaptions d)"
  proof (cases "fst ?res = Inr ()")
    case True
    with sum obtain x where "x \<in> set (MemeCaptions d)" and "?match x"
      by blast
    then have "length (filter (\<lambda>c. \<not> ?match c) (MemeCaptions d)) < length (MemeCaptions d)"
      by (intro length_filter_less) simp_all
    with True c show ?thesis
      by simp
  next
    case False
    with sum have "MemeCaptions (snd ?res) = MemeCaptions d"
      by simp
    with False show ?thesis
      by simp
  qed
  have e: "de_id input = [] \<or> de_memeIdeaId input = [] \<longrightarrow>
      ?res = (Inl ActionInputError, d)"
    using deleteMemeCaption_invalid by blast
  have f: "de_id input \<noteq> [] \<and> de_memeIdeaId input \<noteq> [] \<and>
      (\<forall>l. locals context = Some l \<longrightarrow> user l = None) \<longrightarrow>
      ?res = (Inl (ActionError UNAUTHORIZED ''You must be signed in to perform this action.''), d)"
  proof
    assume h: "de_id input \<noteq> [] \<and> de_memeIdeaId input \<noteq> [] \<and>
      (\<forall>l. locals context = Some l \<longrightarrow> user l = None)"
    then have "requireUser context =
        Inl (ActionError UNAUTHORIZED ''You must be signed in to perform this action.'')"
      by (simp add: requireUser_no_user)
    with h show "?res =
        (Inl (ActionError UNAUTHORIZED ''You must be signed in to perform this action.''), d)"
      by (simp add: deleteMemeCaption_unauthorized)
  qed
  from a b c e f show ?thesis
    by (intro conjI)
qed

text \<open>
  C7 as stated fails on a call without identity: the pair matches no caption of the
  sample store, and the action signals \<open>UNAUTHORIZED\<close>, not \<open>NOT_FOUND\<close>, before any
  lookup.
\<close>

theorem deleteMemeCaption_anonymous_no_match:
  "filter (\<lambda>c. c_id c = ''c9'' \<and> c_memeIdeaId c = ''i1'') (MemeCaptions (sample_db None)) = []
   \<and> deleteMemeCaption \<lparr>de_id = ''c9'', de_memeIdeaId = ''i1''\<rparr> anonymous (sample_db None) =
     (Inl (ActionError UNAUTHORIZED ''You must be signed in to perform this action.''),
      sample_db None)"
proof -
  have "filter (\<lambda>c. c_id c = ''c9'' \<and> c_memeIdeaId c = ''i1'')
      (MemeCaptions (sample_db None)) = []"
    by (simp add: sample_captions)
  moreover have "deleteMemeCaption \<lparr>de_id = ''c9'', de_memeIdeaId = ''i1''\<rparr> anonymous
      (sample_db None) =
     (Inl (ActionError UNAUTHORIZED ''You must be signed in to perform this action.''),
      sample_db None)"
    by (rule deleteMemeCaption_unauthorized)
      (simp_all add: requireUser_no_user [OF anonymous_no_user])
  ultimately show ?thesis
    by (intro conjI)
qed

text \<open>
  Alice deletes her caption \<open>c1\<close>, deletes it again, and asks to delete \<open>c4\<close> under
  the idea it does not belong to.
\<close>

theorem deleteMemeCaption_twice_sample:
  "fst (deleteMemeCaption \<lparr>de_id = ''c1'', de_memeIdeaId = ''i1''\<rparr> (signed_in ''alice'')
        (sample_db None)) = Inr ()
   \<and> MemeCaptions (snd (deleteMemeCaption \<lparr>de_id = ''c1'', de_memeIdeaId = ''i1''\<rparr>
        (signed_in ''alice'') (sample_db None))) =
      [caption ''c2'' ''i1'' True False, caption ''c3'' ''i1'' True True,
       caption ''c4'' ''i2'' False True]
   \<and> fst (deleteMemeCaption \<lparr>de_id = ''c1'', de_memeIdeaId = ''i1''\<rparr> (signed_in ''alice'')
        (snd (deleteMemeCaption \<lparr>de_id = ''c1'', de_memeIdeaId = ''i1''\<rparr>
           (signed_in ''alice'') (sample_db None)))) =
      Inl (ActionError NOT_FOUND ''Meme caption not found.'')
   \<and> fst (deleteMemeCaption \<lparr>de_id = ''c4'', de_memeIdeaId = ''i1''\<rparr> (signed_in ''alice'')
        (sample_db None)) = Inl (ActionError NOT_FOUND ''Meme caption not found.'')"
proof -
  let ?first = "deleteMemeCaption \<lparr>de_id = ''c1'', de_memeIdeaId = ''i1''\<rparr> (signed_in ''alice'')
        (sample_db None)"
  have owned: "\<exists>i \<in> set (MemeIdeas (sample_db None)).
      i_id i = de_memeIdeaId \<lparr>de_id = ''c1'', de_memeIdeaId = ''i1''\<rparr> \<and>
      i_userId i = user_id \<lparr>user_id = ''alice''\<rparr>"
    by (simp add: sample_captions)
  have first: "?first = (Inr (),
      (executed (Delete TMemeCaptions) (executed (Select TMemeIdeas) (sample_db None)))
        \<lparr>MemeCaptions := [caption ''c2'' ''i1'' True False, caption ''c3'' ''i1'' True True,
           caption ''c4'' ''i2'' False True]\<rparr>)"
    by (subst deleteMemeCaption_owned [OF _ _ requireUser_signed_in owned])
      (simp_all add: sample_captions)
  have a: "fst ?first = Inr ()"
    and b: "MemeCaptions (snd ?first) = [caption ''c2'' ''i1'' True False,
       caption ''c3'' ''i1'' True True, caption ''c4'' ''i2'' False True]"
    and ideas: "MemeIdeas (snd ?first) = [idea1, idea2]"
    by (simp_all add: first sample_captions)
  have c: "fst (deleteMemeCaption \<lparr>de_id = ''c1'', de_memeIdeaId = ''i1''\<rparr> (signed_in ''alice'')
        (snd ?first)) = Inl (ActionError NOT_FOUND ''Meme caption not found.'')"
    using deleteMemeCaption_not_found_or_deleted [of "snd ?first"
        "\<lparr>de_id = ''c1'', de_memeIdeaId = ''i1''\<rparr>" "signed_in ''alice''"]
    by (simp add: b ideas sample_captions)
  have d: "fst (deleteMemeCaption \<lparr>de_id = ''c4'', de_memeIdeaId = ''i1''\<rparr> (signed_in ''alice'')
        (sample_db None)) = Inl (ActionError NOT_FOUND ''Meme caption not found.'')"
    using deleteMemeCaption_not_found_or_deleted [of "sample_db None"
        "\<lparr>de_id = ''c4'', de_memeIdeaId = ''i1''\<rparr>" "signed_in ''alice''"]
    by (simp add: sample_captions)
  from a b c d show ?thesis
    by (intro conjI)
qed

section \<open>Listing captions\<close>

lemma and_sql_Some: "and_sql (Some a) (Some b) = Some (a \<and> b)"
  by (cases a; cases b) simp_all

lemma listMemeCaptions_invalid:
  assumes "lr_memeIdeaId raw = []"
  shows "listMemeCaptions raw context d = (Inl ActionInputError, d)"
  using assms
  by (simp add: listMemeCaptions_def defineAction_def listMemeCaptions_schema_def)

lemma listMemeCaptions_unauthorized:
  assumes "lr_memeIdeaId raw \<noteq> []" and "requireUser context = Inl err"
  shows "listMemeCaptions raw context d = (Inl err, d)"
  using assms
  by (simp add: listMemeCaptions_def defineAction_def listMemeCaptions_schema_def
      listMemeCaptions_handler_def Suc_le_eq)

lemma listMemeCaptions_not_owned:
  assumes "lr_memeIdeaId raw \<noteq> []" and "requireUser context = Inr u"
    and "\<not> (\<exists>i \<in> set (MemeIdeas d). i_id i = lr_memeIdeaId raw \<and> i_userId i = user_id u)"
  shows "listMemeCaptions raw context d =
    (Inl (ActionError NOT_FOUND ''Meme idea not found.''), executed (Select TMemeIdeas) d)"
proof -
  from assms(3) have "find (\<lambda>i. i_id i = lr_memeIdeaId raw \<and> i_userId i = user_id u)
      (MemeIdeas d) = None"
    by (simp add: find_None_iff)
  with assms(1,2) show ?thesis
    by (simp add: listMemeCaptions_def defineAction_def listMemeCaptions_schema_def
        listMemeCaptions_handler_def Suc_le_eq getOwnedIdea_result)
qed

lemma listMemeCaptions_owned:
  assumes "lr_memeIdeaId raw \<noteq> []" and "requireUser context = Inr u"
    and "\<exists>i \<in> set (MemeIdeas d). i_id i = lr_memeIdeaId raw \<and> i_userId i = user_id u"
  shows "fst (listMemeCaptions raw context d) =
    Inr \<lparr>items = filter (\<lambda>c. c_memeIdeaId c = lr_memeIdeaId raw \<and>
                     (lr_favoritesOnly raw = Some True \<longrightarrow> c_isFavorite c) \<and>
                     (lr_usedOnly raw = Some True \<longrightarrow> c_isUsed c)) (MemeCaptions d),
         total = length (filter (\<lambda>c. c_memeIdeaId c = lr_memeIdeaId raw \<and>
                     (lr_favoritesOnly raw = Some True \<longrightarrow> c_isFavorite c) \<and>
                     (lr_usedOnly raw = Some True \<longrightarrow> c_isUsed c)) (MemeCaptions d))\<rparr>"
proof -
  from assms(3) obtain idea where "find (\<lambda>i. i_id i = lr_memeIdeaId raw \<and> i_userId i = user_id u)
      (MemeIdeas d) = Some idea"
    by (cases "find (\<lambda>i. i_id i = lr_memeIdeaId raw \<and> i_userId i = user_id u) (MemeIdeas d)")
      (auto simp add: find_None_iff)
  moreover have "(case x of None \<Rightarrow> False | Some b \<Rightarrow> b) \<longleftrightarrow> x = Some True" for x
    by (cases x) simp_all
  ultimately show ?thesis
    using assms(1,2)
    by (simp add: listMemeCaptions_def defineAction_def listMemeCaptions_schema_def
        listMemeCaptions_handler_def Suc_le_eq getOwnedIdea_result rows_where_def Let_def
        and_sql_Some)
qed

text \<open>
  C8. The captions \<open>listMemeCaptions\<close> returns are the captions of the idea that are
  favorites when \<open>favoritesOnly\<close> is true and used when \<open>usedOnly\<close> is true, in the
  table's order, and \<open>total\<close> is their number: both flags are required when both
  filters are set, one when one is set, none when neither is set or given. The action
  returns a list exactly for a well-formed request of a signed-in caller who owns the idea.
\<close>

theorem listMemeCaptions_conjunctive:
  "(\<forall>l. fst (listMemeCaptions raw context d) = Inr l \<longrightarrow>
      items l = filter (\<lambda>c. c_memeIdeaId c = lr_memeIdeaId raw \<and>
                  (lr_favoritesOnly raw = Some True \<longrightarrow> c_isFavorite c) \<and>
                  (lr_usedOnly raw = Some True \<longrightarrow> c_isUsed c)) (MemeCaptions d) \<and>
      total l = length (items l))
   \<and> ((\<exists>l. fst (listMemeCaptions raw context d) = Inr l) \<longleftrightarrow>
        lr_memeIdeaId raw \<noteq> [] \<and>
        (\<exists>u. requireUser context = Inr u \<and>
           (\<exists>i \<in> set (MemeIdeas d). i_id i = lr_memeIdeaId raw \<and> i_userId i = user_id u)))"
proof (cases "lr_memeIdeaId raw = []")
  case True
  from listMemeCaptions_invalid [OF True] True show ?thesis
    by simp
next
  case valid: False
  show ?thesis
  proof (cases "requireUser context")
    case (Inl err)
    from listMemeCaptions_unauthorized [OF valid Inl] Inl show ?thesis
      by simp
  next
    case (Inr u)
    show ?thesis
    proof (cases "\<exists>i \<in> set (MemeIdeas d). i_id i = lr_memeIdeaId raw \<and> i_userId i = user_id u")
      case False
      from listMemeCaptions_not_owned [OF valid Inr False] Inr False show ?thesis
        by simp
    next
      case True
      from listMemeCaptions_owned [OF valid Inr True] Inr True valid show ?thesis
        by auto
    qed
  qed
qed

text \<open>Alice's lists on the sample store: both filters, one of each, none.\<close>

theorem listMemeCaptions_sample:
  "fst (listMemeCaptions \<lparr>lr_memeIdeaId = ''i1'', lr_favoritesOnly = Some True,
        lr_usedOnly = Some True\<rparr> (signed_in ''alice'') (sample_db None)) =
      Inr \<lparr>items = [caption ''c3'' ''i1'' True True], total = 1\<rparr>
   \<and> fst (listMemeCaptions \<lparr>lr_memeIdeaId = ''i1'', lr_favoritesOnly = Some True,
        lr_usedOnly = None\<rparr> (signed_in ''alice'') (sample_db None)) =
      Inr \<lparr>items = [caption ''c2'' ''i1'' True False, caption ''c3'' ''i1'' True True],
           total = 2\<rparr>
   \<and> fst (listMemeCaptions \<lparr>lr_memeIdeaId = ''i2'', lr_favoritesOnly = Some False,
        lr_usedOnly = Some True\<rparr> (signed_in ''alice'') (sample_db None)) =
      Inr \<lparr>items = [caption ''c4'' ''i2'' False True], total = 1\<rparr>
   \<and> fst (listMemeCaptions \<lparr>lr_memeIdeaId = ''i1'', lr_favoritesOnly = None,
        lr_usedOnly = None\<rparr> (signed_in ''alice'') (sample_db None)) =
      Inr \<lparr>items = [caption ''c1'' ''i1'' False False, caption ''c2'' ''i1'' True False,
                    caption ''c3'' ''i1'' True True], total = 3\<rparr>"
proof -
  have listed: "fst (listMemeCaptions raw (signed_in ''alice'') (sample_db None)) =
      Inr \<lparr>items = xs, total = n\<rparr>"
    if ok: "lr_memeIdeaId raw \<noteq> []"
        "\<exists>i \<in> set (MemeIdeas (sample_db None)). i_id i = lr_memeIdeaId raw \<and> i_userId i = ''alice''"
      and xs: "xs = filter (\<lambda>c. c_memeIdeaId c = lr_memeIdeaId raw \<and>
                  (lr_favoritesOnly raw = Some True \<longrightarrow> c_isFavorite c) \<and>
                  (lr_usedOnly raw = Some True \<longrightarrow> c_isUsed c)) (MemeCaptions (sample_db None))"
      and n: "n = length xs"
    for raw xs n
  proof -
    note inst = listMemeCaptions_conjunctive [of raw "signed_in ''alice''" "sample_db None"]
    from conjunct2 [OF inst] ok obtain l where
      l: "fst (listMemeCaptions raw (signed_in ''alice'') (sample_db None)) = Inr l"
      by auto
    from conjunct1 [OF inst, rule_format, OF l] xs n
    have "items l = xs" and "total l = n"
      by simp_all
    then have "l = \<lparr>items = xs, total = n\<rparr>"
      by simp
    with l show ?thesis
      by simp
  qed
  have a: "fst (listMemeCaptions \<lparr>lr_memeIdeaId = ''i1'', lr_favoritesOnly = Some True,
        lr_usedOnly = Some True\<rparr> (signed_in ''alice'') (sample_db None)) =
      Inr \<lparr>items = [caption ''c3'' ''i1'' True True], total = 1\<rparr>"
    by (rule listed) (simp_all add: sample_captions)
  have b: "fst (listMemeCaptions \<lparr>lr_memeIdeaId = ''i1'', lr_favoritesOnly = Some True,
        lr_usedOnly = None\<rparr> (signed_in ''alice'') (sample_db None)) =
      Inr \<lparr>items = [caption ''c2'' ''i1'' True False, caption ''c3'' ''i1'' True True],
           total = 2\<rparr>"
    by (rule listed) (simp_all add: sample_captions)
  have c: "fst (listMemeCaptions \<lparr>lr_memeIdeaId = ''i2'', lr_favoritesOnly = Some False,
        lr_usedOnly = Some True\<rparr> (signed_in ''alice'') (sample_db None)) =
      Inr \<lparr>items = [caption ''c4'' ''i2'' False True], total = 1\<rparr>"
    by (rule listed) (simp_all add: sample_captions)
  have d: "fst (listMemeCaptions \<lparr>lr_memeIdeaId = ''i1'', lr_favoritesOnly = None,
        lr_usedOnly = None\<rparr> (signed_in ''alice'') (sample_db None)) =
      Inr \<lparr>items = [caption ''c1'' ''i1'' False False, caption ''c2'' ''i1'' True False,
                    caption ''c3'' ''i1'' True True], total = 3\<rparr>"
    by (rule listed) (simp_all add: sample_captions)
  from a b c d show ?thesis
    by (intro conjI)
qed

end
